theory Spec2Isabelle
  imports Main "HOL-Library.AList" "HOL-Library.Sublist"
begin

section \<open>The host: file tree, processes, console\<close>

text \<open>
  The script \<^verbatim>\<open>tools/generate_serialization_test_data.py\<close> is a sequence of calls into
  the host: the search path, child processes, the file tree below the project root and the
  console. The host is made explicit. What the script cannot influence (which tools are
  installed, what \<^verbatim>\<open>java -version\<close> answers, what the clone and the build leave on
  disk, how a path is rendered) is a field of the record \<open>world\<close>; what the script changes
  (the file tree and the console) is the \<open>state\<close> that every step takes and returns.

  The file tree has regular files and directories. Symbolic links, permissions, a full disk
  and other input/output failures of the host are outside the model.
\<close>

type_synonym path = "string list"

text \<open>
  A regular file carries its bytes and its metadata (permission bits and modification time).
  A directory is an association list from names to nodes: it denotes the finite map
  \<open>map_of\<close> of the list, the order of the list is the order in which the host enumerates
  the directory.
\<close>

datatype node =
    File (content: string) (mode: nat) (mtime: nat)
  | Dir "(string \<times> node) list"

type_synonym dir = "(string \<times> node) list"

text \<open>
  The tree below the project root is the listing of the project root; the empty path is
  the project root itself, which exists as long as the script that lives below it runs.
\<close>

fun lookup :: "dir \<Rightarrow> path \<Rightarrow> node option" where
  "lookup es [] = Some (Dir es)"
| "lookup es (x # p) =
     (case map_of es x of
        None \<Rightarrow> None
      | Some (File c m t) \<Rightarrow> (if p = [] then Some (File c m t) else None)
      | Some (Dir es') \<Rightarrow> lookup es' p)"

text \<open>\<^verbatim>\<open>Path.exists()\<close>, \<^verbatim>\<open>Path.is_dir()\<close>.\<close>

definition path_exists :: "dir \<Rightarrow> path \<Rightarrow> bool" where
  "path_exists es p = (lookup es p \<noteq> None)"

definition is_dir :: "dir \<Rightarrow> path \<Rightarrow> bool" where
  "is_dir es p = (case lookup es p of Some (Dir _) \<Rightarrow> True | _ \<Rightarrow> False)"

text \<open>
  Writing the node \<open>n\<close> at a path and removing the entry at a path. Both walk through
  directories only and leave the tree as it is when the walk is not possible; the operations
  of the script below check before they write.
\<close>

fun store :: "dir \<Rightarrow> path \<Rightarrow> node \<Rightarrow> dir" where
  "store es [] n = es"
| "store es [x] n = AList.update x n es"
| "store es (x # y # p) n =
     (case map_of es x of
        Some (Dir es') \<Rightarrow> AList.update x (Dir (store es' (y # p) n)) es
      | _ \<Rightarrow> es)"

fun unlink :: "dir \<Rightarrow> path \<Rightarrow> dir" where
  "unlink es [] = es"
| "unlink es [x] = AList.delete x es"
| "unlink es (x # y # p) =
     (case map_of es x of
        Some (Dir es') \<Rightarrow> AList.update x (Dir (unlink es' (y # p))) es
      | _ \<Rightarrow> es)"

text \<open>The exceptions of the Python library that the calls of the script can raise.\<close>

datatype exc =
    FileExistsError
  | FileNotFoundError
  | NotADirectoryError
  | IsADirectoryError
  | SameFileError
  | OSError

text \<open>
  \<^verbatim>\<open>shutil.rmtree(p)\<close>: removes the directory at \<open>p\<close> with everything below it; raises
  when \<open>p\<close> is missing or is a regular file. The project root itself cannot be
  removed in this model; the script never asks for it.
\<close>

definition rmtree :: "dir \<Rightarrow> path \<Rightarrow> exc + dir" where
  "rmtree es p =
     (case lookup es p of
        None \<Rightarrow> Inl FileNotFoundError
      | Some (File _ _ _) \<Rightarrow> Inl NotADirectoryError
      | Some (Dir _) \<Rightarrow> (if p = [] then Inl OSError else Inr (unlink es p)))"

text \<open>
  \<^verbatim>\<open>Path.mkdir()\<close> with the defaults \<^verbatim>\<open>parents=False, exist_ok=False\<close>: the
  parent must be a directory and the name must be free.
\<close>

fun mkdir :: "dir \<Rightarrow> path \<Rightarrow> exc + dir" where
  "mkdir es [] = Inl FileExistsError"
| "mkdir es [x] =
     (case map_of es x of
        None \<Rightarrow> Inr (AList.update x (Dir []) es)
      | Some _ \<Rightarrow> Inl FileExistsError)"
| "mkdir es (x # y # p) =
     (case map_of es x of
        None \<Rightarrow> Inl FileNotFoundError
      | Some (File _ _ _) \<Rightarrow> Inl NotADirectoryError
      | Some (Dir es') \<Rightarrow>
          (case mkdir es' (y # p) of
             Inl e \<Rightarrow> Inl e
           | Inr es'' \<Rightarrow> Inr (AList.update x (Dir es'') es)))"

text \<open>
  \<^verbatim>\<open>Path.mkdir(parents=True, exist_ok=True)\<close>: missing directories on the way are
  created, a directory that is there is kept as it is, a regular file in the way raises
  (\<^verbatim>\<open>FileExistsError\<close> at the last name, \<^verbatim>\<open>NotADirectoryError\<close> before it).
\<close>

fun mkdir_parents_exist_ok :: "dir \<Rightarrow> path \<Rightarrow> exc + dir" where
  "mkdir_parents_exist_ok es [] = Inr es"
| "mkdir_parents_exist_ok es (x # p) =
     (case map_of es x of
        None \<Rightarrow>
          (case mkdir_parents_exist_ok [] p of
             Inl e \<Rightarrow> Inl e
           | Inr es' \<Rightarrow> Inr (AList.update x (Dir es') es))
      | Some (File _ _ _) \<Rightarrow> Inl (if p = [] then FileExistsError else NotADirectoryError)
      | Some (Dir es') \<Rightarrow>
          (case mkdir_parents_exist_ok es' p of
             Inl e \<Rightarrow> Inl e
           | Inr es'' \<Rightarrow> Inr (AList.update x (Dir es'') es)))"

text \<open>
  \<^verbatim>\<open>Path.glob("*.sk")\<close>: the entries of the directory at \<open>d\<close>, one level deep, whose
  name ends in \<^verbatim>\<open>.sk\<close>, of whatever kind they are; nothing when \<open>d\<close> is not a
  directory. Names are matched as on a POSIX host (case matters).
\<close>

definition fnmatch_sk :: "string \<Rightarrow> bool" where
  "fnmatch_sk name = suffix ''.sk'' name"

definition listdir :: "dir \<Rightarrow> string list" where
  "listdir es = remdups (map fst es)"

definition glob_sk :: "dir \<Rightarrow> path \<Rightarrow> path list" where
  "glob_sk es d =
     (case lookup es d of
        Some (Dir entries) \<Rightarrow> map (\<lambda>name. d @ [name]) (filter fnmatch_sk (listdir entries))
      | _ \<Rightarrow> [])"

text \<open>
  \<^verbatim>\<open>shutil.copy2(src, dst)\<close>: when \<open>dst\<close> is a directory the target is the entry of the
  same name in it. Copying a file onto itself raises. The source is opened first (a missing
  source and a directory raise), then
  the target (a directory at the target, a missing parent and a regular file as parent
  raise); then the bytes and the metadata of the source are written at the target.
\<close>

definition copy2 :: "dir \<Rightarrow> path \<Rightarrow> path \<Rightarrow> exc + dir" where
  "copy2 es src dst =
     (let target = (if is_dir es dst then dst @ [last src] else dst) in
      if src = target \<and> path_exists es src then Inl SameFileError
      else case lookup es src of
        None \<Rightarrow> Inl FileNotFoundError
      | Some (Dir _) \<Rightarrow> Inl IsADirectoryError
      | Some (File c m t) \<Rightarrow>
          (case lookup es target of
             Some (Dir _) \<Rightarrow> Inl IsADirectoryError
           | Some (File _ _ _) \<Rightarrow> Inr (store es target (File c m t))
           | None \<Rightarrow>
               (case lookup es (butlast target) of
                  None \<Rightarrow> Inl FileNotFoundError
                | Some (File _ _ _) \<Rightarrow> Inl NotADirectoryError
                | Some (Dir _) \<Rightarrow> Inr (store es target (File c m t)))))"


subsection \<open>Processes and the console\<close>

text \<open>
  A Python \<^verbatim>\<open>str\<close> that comes from outside the script is the list of its code
  points; the texts that the script itself writes are ASCII and stay \<open>string\<close>s.
\<close>

type_synonym pystr = "nat list"

definition text_of :: "string \<Rightarrow> pystr" where
  "text_of s = map of_char s"

text \<open>
  What \<^verbatim>\<open>subprocess.run(..., capture_output=True, text=True)\<close> returns: the exit
  status of the child and the text of its two streams.
\<close>

record completed_process =
  returncode :: int
  stdout :: pystr
  stderr :: pystr

text \<open>
  What a child started by \<^verbatim>\<open>subprocess.check_call\<close> does: it cannot be started (the
  call raises an \<^verbatim>\<open>OSError\<close>), or it ends with an exit status and leaves a file tree.
\<close>

datatype child = NotStarted exc | Exited int dir

record world =
  which :: "string \<Rightarrow> string option"
    \<comment> \<open>\<^verbatim>\<open>shutil.which\<close>: where a command is on the search path\<close>
  subprocess_run :: "string list \<Rightarrow> string + completed_process"
    \<comment> \<open>the captured run of a command; \<open>Inl\<close> is the text of the exception it raises\<close>
  check_call :: "string list \<Rightarrow> path option \<Rightarrow> dir \<Rightarrow> child"
    \<comment> \<open>the run of a command in a working directory on a file tree\<close>
  os_name :: string
    \<comment> \<open>\<^verbatim>\<open>os.name\<close>\<close>
  str_path :: "path \<Rightarrow> string"
    \<comment> \<open>how the host writes the path below the project root\<close>
  str_called_process_error :: "string list \<Rightarrow> int \<Rightarrow> string"
    \<comment> \<open>the text of \<^verbatim>\<open>CalledProcessError\<close> for a command and its exit status\<close>
  unicode_decimal :: "nat \<Rightarrow> nat option"
    \<comment> \<open>the interpreter's Unicode table: the value of a code point beyond ASCII that is a
        decimal digit (category Nd), \<open>None\<close> for every other one\<close>
  int_max_str_digits :: nat
    \<comment> \<open>\<^verbatim>\<open>sys.get_int_max_str_digits()\<close>: 4300 by default, 0 for no limit (also on
        interpreters that have no such limit)\<close>
  str_value_error :: "pystr \<Rightarrow> string"
    \<comment> \<open>the text of the \<^verbatim>\<open>ValueError\<close> that \<^verbatim>\<open>int\<close> raises on a text\<close>

text \<open>
  What an observer of a run sees: the lines printed and the commands invoked, in order. A
  line is a text of the script or, at line 48, the text captured from a child.
\<close>

datatype event =
    Printed string
  | Printed_text pystr
  | Invoked "string list" "path option"

record state =
  tree :: dir
  events :: "event list"

text \<open>
  A step either returns a value or aborts: \<^verbatim>\<open>sys.exit(n)\<close>, or an exception that
  nothing catches. The interpreter ends with status \<open>n\<close> in the first case, with status 1
  (after a traceback) in the second, with status 0 when the script runs to its end.
\<close>

datatype abort = SysExit int | Uncaught exc

type_synonym 'a run = "state \<Rightarrow> (abort + 'a) \<times> state"

definition return :: "'a \<Rightarrow> 'a run" where
  "return x s = (Inr x, s)"

definition bind :: "'a run \<Rightarrow> ('a \<Rightarrow> 'b run) \<Rightarrow> 'b run" where
  "bind m f s = (case m s of (Inl a, s') \<Rightarrow> (Inl a, s') | (Inr x, s') \<Rightarrow> f x s')"

definition sys_exit :: "int \<Rightarrow> 'a run" where
  "sys_exit n s = (Inl (SysExit n), s)"

definition py_print :: "string \<Rightarrow> unit run" where
  "py_print line s = (Inr (), s\<lparr>events := events s @ [Printed line]\<rparr>)"

definition py_print_text :: "pystr \<Rightarrow> unit run" where
  "py_print_text line s = (Inr (), s\<lparr>events := events s @ [Printed_text line]\<rparr>)"

definition fs_op :: "(dir \<Rightarrow> exc + dir) \<Rightarrow> unit run" where
  "fs_op f s =
     (case f (tree s) of
        Inl e \<Rightarrow> (Inl (Uncaught e), s)
      | Inr t \<Rightarrow> (Inr (), s\<lparr>tree := t\<rparr>))"

definition fs_query :: "(dir \<Rightarrow> 'a) \<Rightarrow> 'a run" where
  "fs_query f s = (Inr (f (tree s)), s)"

definition exit_code :: "abort + unit \<Rightarrow> int" where
  "exit_code r = (case r of Inr _ \<Rightarrow> 0 | Inl (SysExit n) \<Rightarrow> n | Inl (Uncaught _) \<Rightarrow> 1)"

subsection \<open>Text\<close>

text \<open>
  The decimal digits and their values: \<^verbatim>\<open>\d\<close> in a pattern on a \<^verbatim>\<open>str\<close>
  matches every Unicode decimal digit, and \<^verbatim>\<open>int\<close> reads every one of them. The
  ASCII part is fixed: the ten digits, and no other character below 128. Beyond ASCII the
  table of the interpreter decides.
\<close>

definition decimal :: "(nat \<Rightarrow> nat option) \<Rightarrow> nat \<Rightarrow> nat option" where
  "decimal table c =
     (if 48 \<le> c \<and> c \<le> 57 then Some (c - 48)
      else if c < 128 then None
      else table c)"

definition is_digit :: "(nat \<Rightarrow> nat option) \<Rightarrow> nat \<Rightarrow> bool" where
  "is_digit table c = (decimal table c \<noteq> None)"

text \<open>
  \<^verbatim>\<open>int(text)\<close> for the texts the script passes, runs of decimal digits. It raises
  \<^verbatim>\<open>ValueError\<close> on a text that is not a non-empty run of digits, and on a run that
  is longer than the limit on the length of such texts; the interpreter applies the limit to
  runs of more than 640 digits only, leading zeros counted. Otherwise the result is the
  number that the digits denote. \<open>Inl\<close> is the text of the exception.
\<close>

definition digits_value :: "(nat \<Rightarrow> nat option) \<Rightarrow> pystr \<Rightarrow> nat" where
  "digits_value table ds =
     foldl (\<lambda>a c. 10 * a + (case decimal table c of Some d \<Rightarrow> d | None \<Rightarrow> 0)) 0 ds"

definition py_int :: "world \<Rightarrow> pystr \<Rightarrow> string + nat" where
  "py_int w ds =
     (if ds = [] \<or> \<not> list_all (is_digit (unicode_decimal w)) ds
      then Inl (str_value_error w ds)
      else if 640 < length ds \<and> 0 < int_max_str_digits w \<and> int_max_str_digits w < length ds
      then Inl (str_value_error w ds)
      else Inr (digits_value (unicode_decimal w) ds))"

text \<open>\<^verbatim>\<open>str(n)\<close> on a natural number.\<close>

fun py_str :: "nat \<Rightarrow> string" where
  "py_str n =
     (if n < 10 then [char_of (48 + n)]
      else py_str (n div 10) @ [char_of (48 + n mod 10)])"

text \<open>\<^verbatim>\<open>' '.join(command)\<close>\<close>

fun join_spaces :: "string list \<Rightarrow> string" where
  "join_spaces [] = []"
| "join_spaces [x] = x"
| "join_spaces (x # y # zs) = x @ '' '' @ join_spaces (y # zs)"

text \<open>
  \<^verbatim>\<open>re.search(r'version "(\d+)', output)\<close>, reduced to the group it captures: the
  search tries every position from the left; at a position the pattern matches when the text
  there starts with \<^verbatim>\<open>version "\<close> followed by at least one digit, and the group is the
  longest run of digits there.
\<close>

definition version_quote :: pystr where
  "version_quote = text_of (''version '' @ [CHR 0x22])"

definition match_version :: "(nat \<Rightarrow> nat option) \<Rightarrow> pystr \<Rightarrow> pystr option" where
  "match_version table output =
     (if prefix version_quote output
      then (let ds = takeWhile (is_digit table) (drop (length version_quote) output)
            in if ds = [] then None else Some ds)
      else None)"

fun re_search_version :: "(nat \<Rightarrow> nat option) \<Rightarrow> pystr \<Rightarrow> pystr option" where
  "re_search_version table [] = None"
| "re_search_version table (c # cs) =
     (case match_version table (c # cs) of
        Some ds \<Rightarrow> Some ds
      | None \<Rightarrow> re_search_version table cs)"

section \<open>The script\<close>

text \<open>Lines 27 to 31.\<close>

definition check_command_installed :: "world \<Rightarrow> string \<Rightarrow> unit run" where
  "check_command_installed w command =
     (if which w command = None
      then bind (py_print (''Error: '' @ [CHR 0x27] @ command @ [CHR 0x27]
                   @ '' is not installed or not in PATH.''))
             (\<lambda>_. sys_exit 1)
      else return ())"

text \<open>
  Lines 33 to 52. Every \<^verbatim>\<open>sys.exit\<close> is inside the \<^verbatim>\<open>try\<close>, but
  \<^verbatim>\<open>SystemExit\<close> is not an \<^verbatim>\<open>Exception\<close>, so the handler of lines 50 to 52
  sees what \<^verbatim>\<open>subprocess.run\<close> raises and what \<^verbatim>\<open>int\<close> raises.
\<close>

definition java_version_error :: "string \<Rightarrow> unit run" where
  "java_version_error e =
     bind (py_print (''Error checking Java version: '' @ e)) (\<lambda>_. sys_exit 1)"

definition check_java_version :: "world \<Rightarrow> unit run" where
  "check_java_version w =
     bind (\<lambda>s. (Inr (), s\<lparr>events := events s @ [Invoked [''java'', ''-version''] None]\<rparr>))
       (\<lambda>_. case subprocess_run w [''java'', ''-version''] of
          Inl e \<Rightarrow> java_version_error e
        | Inr result \<Rightarrow>
            (let output = stderr result in
             case re_search_version (unicode_decimal w) output of
               Some digits \<Rightarrow>
                 (case py_int w digits of
                    Inl e \<Rightarrow> java_version_error e
                  | Inr version \<Rightarrow>
                      if version \<noteq> 25
                      then bind (py_print (''Error: Java 25 is required, but found Java ''
                                   @ py_str version @ ''.''))
                             (\<lambda>_. sys_exit 1)
                      else py_print (''Found Java '' @ py_str version @ ''.''))
             | None \<Rightarrow>
                 bind (py_print ''Error: Could not parse Java version.'')
                   (\<lambda>_. bind (py_print_text output) (\<lambda>_. sys_exit 1))))"

text \<open>
  Lines 54 to 61. The script passes lists only and never a shell. The handler catches
  \<^verbatim>\<open>CalledProcessError\<close> only, so a child that cannot be started is an exception that
  nothing catches.
\<close>

definition run_command :: "world \<Rightarrow> string list \<Rightarrow> path option \<Rightarrow> unit run" where
  "run_command w command cwd =
     bind (py_print (''Running: '' @ join_spaces command))
       (\<lambda>_ s. let s1 = s\<lparr>events := events s @ [Invoked command cwd]\<rparr> in
          case check_call w command cwd (tree s1) of
            NotStarted e \<Rightarrow> (Inl (Uncaught e), s1)
          | Exited rc t \<Rightarrow>
              if rc \<noteq> 0
              then bind (py_print (''Error running command: ''
                           @ str_called_process_error w command rc))
                     (\<lambda>_. sys_exit 1) (s1\<lparr>tree := t\<rparr>)
              else (Inr (), s1\<lparr>tree := t\<rparr>))"

text \<open>Lines 70 to 74, relative to the project root, and line 84.\<close>

definition temp_dir :: path where
  "temp_dir = [''tmp_datasketches_java'']"

definition output_dir :: path where
  "output_dir = [''tests'', ''serialization_test_data'', ''java_generated_files'']"

definition repo_url :: string where
  "repo_url = ''https://github.com/apache/datasketches-java.git''"

text \<open>Line 97.\<close>

definition generated_files_dir :: path where
  "generated_files_dir = temp_dir @ [''serialization_test_data'', ''java_generated_files'']"

text \<open>Lines 64 to 68: step 1, check prerequisites.\<close>

definition check_prerequisites :: "world \<Rightarrow> unit run" where
  "check_prerequisites w =
     bind (check_command_installed w ''git'')
       (\<lambda>_. bind (check_command_installed w ''mvn'')
         (\<lambda>_. bind (check_command_installed w ''java'')
           (\<lambda>_. check_java_version w)))"

text \<open>Lines 76 to 81: step 3, set up the temporary directory.\<close>

definition setup_temporary_directory :: "world \<Rightarrow> unit run" where
  "setup_temporary_directory w =
     bind (fs_query (\<lambda>t. path_exists t temp_dir))
       (\<lambda>there. bind (if there
                       then bind (py_print (''Removing existing temporary directory: ''
                                    @ str_path w temp_dir))
                              (\<lambda>_. fs_op (\<lambda>t. rmtree t temp_dir))
                       else return ())
         (\<lambda>_. fs_op (\<lambda>t. mkdir t temp_dir)))"

text \<open>Lines 83 to 85: step 4, clone the repository.\<close>

definition clone_command :: "world \<Rightarrow> string list" where
  "clone_command w = [''git'', ''clone'', repo_url, str_path w temp_dir]"

definition clone_repository :: "world \<Rightarrow> unit run" where
  "clone_repository w = run_command w (clone_command w) None"

text \<open>Lines 87 to 94: step 5, run Maven.\<close>

definition mvn_cmd :: "world \<Rightarrow> string list" where
  "mvn_cmd w =
     (if os_name w = ''nt''
      then [''mvn.cmd'', ''test'', ''-P'', ''generate-java-files'']
      else [''mvn'', ''test'', ''-P'', ''generate-java-files''])"

definition run_maven :: "world \<Rightarrow> unit run" where
  "run_maven w = run_command w (mvn_cmd w) (Some temp_dir)"

text \<open>
  Lines 96 to 115: step 6, copy the generated files. The loop of lines 107 to 110 runs over
  the listing taken when it starts.
\<close>

fun copy_loop :: "path list \<Rightarrow> nat \<Rightarrow> nat run" where
  "copy_loop [] files_copied = return files_copied"
| "copy_loop (file_path # rest) files_copied =
     bind (fs_op (\<lambda>t. copy2 t file_path output_dir))
       (\<lambda>_. bind (py_print (''Copied: '' @ last file_path))
         (\<lambda>_. copy_loop rest (files_copied + 1)))"

definition copy_generated_files :: "world \<Rightarrow> unit run" where
  "copy_generated_files w =
     bind (fs_query (\<lambda>t. path_exists t generated_files_dir))
       (\<lambda>there.
          if \<not> there
          then bind (py_print (''Error: Expected generated files directory not found at ''
                       @ str_path w generated_files_dir))
                 (\<lambda>_. sys_exit 1)
          else
            bind (py_print (''Copying files from '' @ str_path w generated_files_dir
                    @ '' to '' @ str_path w output_dir))
              (\<lambda>_. bind (fs_op (\<lambda>t. mkdir_parents_exist_ok t output_dir))
                (\<lambda>_. bind (fs_query (\<lambda>t. glob_sk t generated_files_dir))
                  (\<lambda>files. bind (copy_loop files 0)
                    (\<lambda>files_copied.
                       if files_copied = 0
                       then py_print ''Warning: No .sk files were found to copy.''
                       else py_print (''Successfully copied '' @ py_str files_copied
                              @ '' files.''))))))"

text \<open>Lines 63 to 120. Step 7 is a comment: nothing is removed at the end.\<close>

definition main :: "world \<Rightarrow> unit run" where
  "main w =
     bind (check_prerequisites w)
       (\<lambda>_. bind (setup_temporary_directory w)
         (\<lambda>_. bind (clone_repository w)
           (\<lambda>_. bind (run_maven w)
             (\<lambda>_. copy_generated_files w))))"

section \<open>Notions used in the properties\<close>

text \<open>The tools that lines 65 to 67 ask for, in that order.\<close>

definition required_tools :: "string list" where
  "required_tools = [''git'', ''mvn'', ''java'']"

text \<open>The commands among the events of a run, in order, each with its working directory.\<close>

fun commands_invoked :: "event list \<Rightarrow> (string list \<times> path option) list" where
  "commands_invoked [] = []"
| "commands_invoked (Printed _ # es) = commands_invoked es"
| "commands_invoked (Printed_text _ # es) = commands_invoked es"
| "commands_invoked (Invoked c d # es) = (c, d) # commands_invoked es"

text \<open>The steps of \<open>main\<close> before the clone, before the build and before the copy.\<close>

definition before_clone :: "world \<Rightarrow> unit run" where
  "before_clone w = bind (check_prerequisites w) (\<lambda>_. setup_temporary_directory w)"

definition before_build :: "world \<Rightarrow> unit run" where
  "before_build w = bind (before_clone w) (\<lambda>_. clone_repository w)"

definition before_copy :: "world \<Rightarrow> unit run" where
  "before_copy w = bind (before_build w) (\<lambda>_. run_maven w)"

text \<open>A step all of whose aborts end the interpreter with exit status 1.\<close>

definition aborts_with_1 :: "'a run \<Rightarrow> bool" where
  "aborts_with_1 m = (\<forall>s a. fst (m s) = Inl a \<longrightarrow> exit_code (Inl a) = 1)"

section \<open>Example hosts\<close>

text \<open>
  A host with every tool installed, a Java that reports the version given, the Arabic-Indic
  digits as the decimal digits beyond ASCII, the default limit of \<^verbatim>\<open>int\<close>, a clone that
  fills the workspace with a project file and a build that leaves a given content in the
  workspace: in the example three files in the directory of generated files, two of them
  named \<^verbatim>\<open>*.sk\<close>.
\<close>

definition java_banner :: "string \<Rightarrow> string" where
  "java_banner v = ''openjdk version '' @ [CHR 0x22] @ v @ [CHR 0x22] @ '' 2025-09-16''"

definition java_reports :: "int \<Rightarrow> string \<Rightarrow> string \<Rightarrow> string list \<Rightarrow> string + completed_process" where
  "java_reports rc out err =
     (\<lambda>_. Inr \<lparr>returncode = rc, stdout = text_of out, stderr = text_of err\<rparr>)"

text \<open>
  A Java that writes a given text on its error stream, and two such texts: a version
  written in Arabic-Indic digits, and a version of 4301 digits that denote 25.
\<close>

definition java_stderr :: "pystr \<Rightarrow> string list \<Rightarrow> string + completed_process" where
  "java_stderr err = (\<lambda>_. Inr \<lparr>returncode = 0, stdout = [], stderr = err\<rparr>)"

definition arabic_indic_banner :: pystr where
  "arabic_indic_banner = text_of ''openjdk '' @ version_quote @ [1634, 1637] @ text_of ''.0.1''"

definition overlong_banner :: pystr where
  "overlong_banner =
     text_of ''openjdk '' @ version_quote @ (replicate 4299 48 @ [50, 53]) @ text_of [CHR 0x22]"

definition cloned_project :: dir where
  "cloned_project = [(''pom.xml'', File ''<project/>'' 420 1)]"

definition generated_files :: dir where
  "generated_files =
     [(''a.sk'', File ''A'' 420 5), (''b.sk'', File ''B'' 420 6), (''c.txt'', File ''C'' 420 7)]"

definition built_project :: "dir \<Rightarrow> dir" where
  "built_project files =
     cloned_project @ [(''serialization_test_data'', Dir [(''java_generated_files'', Dir files)])]"

definition example_child :: "dir \<Rightarrow> string list \<Rightarrow> path option \<Rightarrow> dir \<Rightarrow> child" where
  "example_child built command cwd t =
     (if hd command = ''git'' then Exited 0 (store t temp_dir (Dir cloned_project))
      else Exited 0 (store t temp_dir (Dir built)))"

definition example_world :: world where
  "example_world =
     \<lparr> which = (\<lambda>c. Some (''/usr/bin/'' @ c)),
       subprocess_run = java_reports 0 [] (java_banner ''25.0.1''),
       check_call = example_child (built_project generated_files),
       os_name = ''posix'',
       str_path = (\<lambda>p. concat (map (\<lambda>name. ''/'' @ name) (''repo'' # p))),
       str_called_process_error = (\<lambda>command rc. ''Command failed.''),
       unicode_decimal = (\<lambda>c. if 1632 \<le> c \<and> c \<le> 1641 then Some (c - 1632) else None),
       int_max_str_digits = 4300,
       str_value_error = (\<lambda>ds. ''Exceeds the limit for integer string conversion'') \<rparr>"

definition empty_state :: state where
  "empty_state = \<lparr>tree = [], events = []\<rparr>"

text \<open>
  The state a successful run on the example host leaves: the workspace with the built
  project, the fixture directory with the two files copied, and a file of the repository.
\<close>

definition used_state :: state where
  "used_state =
     \<lparr>tree = [(''README.md'', File ''readme'' 420 0),
              (''tests'', Dir [(''serialization_test_data'',
                 Dir [(''java_generated_files'',
                   Dir [(''a.sk'', File ''old'' 420 2), (''keep.bin'', File ''K'' 420 3)])])]),
              (''tmp_datasketches_java'', Dir (built_project generated_files))],
      events = []\<rparr>"

text \<open>
  A regular file at a path, and a path at which a directory is or can be made: no regular
  file sits at the path or at one of its ancestors.
\<close>

definition is_file :: "dir \<Rightarrow> path \<Rightarrow> bool" where
  "is_file es p = (case lookup es p of Some (File _ _ _) \<Rightarrow> True | _ \<Rightarrow> False)"

definition unobstructed :: "dir \<Rightarrow> path \<Rightarrow> bool" where
  "unobstructed es p = list_all (\<lambda>q. \<not> is_file es q) (prefixes p)"

text \<open>The example host with a build that leaves the given content in the workspace.\<close>

definition host_building :: "dir \<Rightarrow> world" where
  "host_building built = example_world\<lparr>check_call := example_child built\<rparr>"

text \<open>The state in which the build of that host hands over to the copy, on an empty tree.\<close>

definition built_state :: "dir \<Rightarrow> state" where
  "built_state built =
     \<lparr>tree = [(''tmp_datasketches_java'', Dir built)],
      events =
        [Invoked [''java'', ''-version''] None,
         Printed ''Found Java 25.'',
         Printed (''Running: git clone https://github.com/apache/datasketches-java.git ''
                    @ ''/repo/tmp_datasketches_java''),
         Invoked [''git'', ''clone'', ''https://github.com/apache/datasketches-java.git'',
                  ''/repo/tmp_datasketches_java''] None,
         Printed ''Running: mvn test -P generate-java-files'',
         Invoked [''mvn'', ''test'', ''-P'', ''generate-java-files'']
           (Some [''tmp_datasketches_java''])]\<rparr>"

text \<open>Generated files among which an entry named \<^verbatim>\<open>*.sk\<close> is a directory.\<close>

definition directory_entry_files :: dir where
  "directory_entry_files = [(''d.sk'', Dir []), (''a.sk'', File ''A'' 420 5)]"

text \<open>A child that fails with the given status when the given tool is run.\<close>

definition failing_child :: "string \<Rightarrow> int \<Rightarrow> string list \<Rightarrow> path option \<Rightarrow> dir \<Rightarrow> child" where
  "failing_child tool rc command cwd t =
     (if hd command = tool then Exited rc t
      else example_child (built_project generated_files) command cwd t)"

section \<open>Running steps in sequence\<close>

lemmas run_defs = bind_def return_def sys_exit_def py_print_def fs_op_def fs_query_def

lemma bind_Inl: "m s = (Inl a, s') \<Longrightarrow> bind m f s = (Inl a, s')"
  by (simp add: bind_def)

lemma bind_Inr: "m s = (Inr x, s') \<Longrightarrow> bind m f s = f x s'"
  by (simp add: bind_def)

lemma commands_invoked_append:
  "commands_invoked (xs @ ys) = commands_invoked xs @ commands_invoked ys"
  by (induction xs rule: commands_invoked.induct) simp_all

section \<open>Step 1: the prerequisites\<close>

lemma check_command_installed_missing:
  "which w c = None \<Longrightarrow>
   check_command_installed w c s =
     (Inl (SysExit 1),
      s\<lparr>events := events s @ [Printed (''Error: '' @ [CHR 0x27] @ c @ [CHR 0x27]
                                         @ '' is not installed or not in PATH.'')]\<rparr>)"
  by (simp add: check_command_installed_def run_defs)

lemma check_command_installed_present:
  "which w c \<noteq> None \<Longrightarrow> check_command_installed w c s = (Inr (), s)"
  by (simp add: check_command_installed_def run_defs)

lemma check_prerequisites_missing:
  assumes "find (\<lambda>c. which w c = None) required_tools = Some c"
  shows "check_prerequisites w s =
     (Inl (SysExit 1),
      s\<lparr>events := events s @ [Printed (''Error: '' @ [CHR 0x27] @ c @ [CHR 0x27]
                                         @ '' is not installed or not in PATH.'')]\<rparr>)"
proof -
  consider (git) "which w ''git'' = None" "c = ''git''"
    | (mvn) "which w ''git'' \<noteq> None" "which w ''mvn'' = None" "c = ''mvn''"
    | (java) "which w ''git'' \<noteq> None" "which w ''mvn'' \<noteq> None"
        "which w ''java'' = None" "c = ''java''"
    using assms by (auto simp: required_tools_def split: if_splits)
  then show ?thesis
  proof cases
    case git
    then show ?thesis
      by (simp add: check_prerequisites_def bind_Inl [OF check_command_installed_missing])
  next
    case mvn
    then show ?thesis
      by (simp add: check_prerequisites_def bind_Inl [OF check_command_installed_missing]
          bind_Inr [OF check_command_installed_present])
  next
    case java
    then show ?thesis
      by (simp add: check_prerequisites_def bind_Inl [OF check_command_installed_missing]
          bind_Inr [OF check_command_installed_present])
  qed
qed

lemma check_prerequisites_installed:
  assumes "\<forall>c \<in> set required_tools. which w c \<noteq> None"
  shows "check_prerequisites w s = check_java_version w s"
  using assms
  by (simp add: check_prerequisites_def required_tools_def
      bind_Inr [OF check_command_installed_present])

text \<open>
  C5. When one of the required tools git, mvn, java is not on the search path, the run ends
  in the check of the prerequisites with exit status 1: the only thing it does is to print
  the message that names the first missing tool; no command is invoked (no clone, no build)
  and the file tree is untouched.
\<close>

theorem missing_tool_fails_before_any_command:
  assumes "c \<in> set required_tools" and "which w c = None"
  shows "\<exists>c'. find (\<lambda>c. which w c = None) required_tools = Some c' \<and>
           main w s =
             (Inl (SysExit 1),
              s\<lparr>events := events s @ [Printed (''Error: '' @ [CHR 0x27] @ c' @ [CHR 0x27]
                                                 @ '' is not installed or not in PATH.'')]\<rparr>) \<and>
           commands_invoked (events (snd (main w s))) = commands_invoked (events s) \<and>
           tree (snd (main w s)) = tree s"
proof -
  from assms obtain c' where f: "find (\<lambda>c. which w c = None) required_tools = Some c'"
    by (cases "find (\<lambda>c. which w c = None) required_tools") (auto simp: find_None_iff)
  have "main w s =
      (Inl (SysExit 1),
       s\<lparr>events := events s @ [Printed (''Error: '' @ [CHR 0x27] @ c' @ [CHR 0x27]
                                          @ '' is not installed or not in PATH.'')]\<rparr>)"
    unfolding main_def by (rule bind_Inl) (rule check_prerequisites_missing [OF f])
  with f show ?thesis
    by (simp add: commands_invoked_append)
qed

theorem missing_tool_fails_before_any_command_witness:
  "main (example_world\<lparr>which := (\<lambda>c. if c = ''mvn'' then None else Some c)\<rparr>) empty_state =
     (Inl (SysExit 1),
      \<lparr>tree = [],
       events = [Printed (''Error: '' @ [CHR 0x27] @ ''mvn'' @ [CHR 0x27]
                            @ '' is not installed or not in PATH.'')]\<rparr>)"
  using missing_tool_fails_before_any_command
    [of "''mvn''" "example_world\<lparr>which := (\<lambda>c. if c = ''mvn'' then None else Some c)\<rparr>"
        empty_state]
  by (simp add: required_tools_def empty_state_def)

section \<open>The version check\<close>

declare py_str.simps [simp del]

lemma py_str_25: "py_str 25 = ''25''"
  by code_simp

lemma check_java_version_raised:
  assumes "subprocess_run w [''java'', ''-version''] = Inl e"
  shows "check_java_version w s =
    (Inl (SysExit 1),
     s\<lparr>events := events s @ [Invoked [''java'', ''-version''] None,
                               Printed (''Error checking Java version: '' @ e)]\<rparr>)"
  using assms by (simp add: check_java_version_def java_version_error_def run_defs)

lemma check_java_version_unparsed:
  assumes "subprocess_run w [''java'', ''-version''] = Inr r"
    and "re_search_version (unicode_decimal w) (stderr r) = None"
  shows "check_java_version w s =
    (Inl (SysExit 1),
     s\<lparr>events := events s @ [Invoked [''java'', ''-version''] None,
                               Printed ''Error: Could not parse Java version.'',
                               Printed_text (stderr r)]\<rparr>)"
  using assms by (simp add: check_java_version_def run_defs py_print_text_def)

lemma check_java_version_int_raised:
  assumes "subprocess_run w [''java'', ''-version''] = Inr r"
    and "re_search_version (unicode_decimal w) (stderr r) = Some ds"
    and "py_int w ds = Inl e"
  shows "check_java_version w s =
    (Inl (SysExit 1),
     s\<lparr>events := events s @ [Invoked [''java'', ''-version''] None,
                               Printed (''Error checking Java version: '' @ e)]\<rparr>)"
  using assms by (simp add: check_java_version_def java_version_error_def run_defs Let_def)

lemma check_java_version_other:
  assumes "subprocess_run w [''java'', ''-version''] = Inr r"
    and "re_search_version (unicode_decimal w) (stderr r) = Some ds"
    and "py_int w ds = Inr v" and "v \<noteq> 25"
  shows "check_java_version w s =
    (Inl (SysExit 1),
     s\<lparr>events := events s @ [Invoked [''java'', ''-version''] None,
                               Printed (''Error: Java 25 is required, but found Java ''
                                          @ py_str v @ ''.'')]\<rparr>)"
  using assms by (simp add: check_java_version_def run_defs Let_def)

lemma check_java_version_25:
  assumes "subprocess_run w [''java'', ''-version''] = Inr r"
    and "re_search_version (unicode_decimal w) (stderr r) = Some ds"
    and "py_int w ds = Inr 25"
  shows "check_java_version w s =
    (Inr (),
     s\<lparr>events := events s @ [Invoked [''java'', ''-version''] None,
                               Printed ''Found Java 25.'']\<rparr>)"
  using assms by (simp add: check_java_version_def run_defs Let_def py_str_25)

text \<open>What \<open>int\<close> returns on a run of digits.\<close>

lemma py_int_digits:
  assumes "ds \<noteq> []" and "list_all (is_digit (unicode_decimal w)) ds"
  shows "(py_int w ds = Inr n) =
           (\<not> (640 < length ds \<and> 0 < int_max_str_digits w \<and> int_max_str_digits w < length ds) \<and>
            digits_value (unicode_decimal w) ds = n)"
  using assms by (auto simp: py_int_def)

lemma py_int_short:
  assumes "ds \<noteq> []" and "list_all (is_digit (unicode_decimal w)) ds" and "length ds \<le> 640"
  shows "py_int w ds = Inr (digits_value (unicode_decimal w) ds)"
  using assms by (simp add: py_int_def)

subsection \<open>The search for the version token\<close>

text \<open>The search: no match starts inside a text without a match, whatever follows it.\<close>

lemma length_version_quote: "length version_quote = 9"
  by (simp add: version_quote_def text_of_def)

lemma not_is_digit_ascii: "c < 48 \<or> (57 < c \<and> c < 128) \<Longrightarrow> \<not> is_digit table c"
  by (auto simp: is_digit_def decimal_def)

lemma is_digit_ascii: "48 \<le> c \<Longrightarrow> c \<le> 57 \<Longrightarrow> is_digit table c"
  by (simp add: is_digit_def decimal_def)

lemma hd_version_quote: "version_quote @ u = 118 # tl (version_quote @ u)"
  by (simp add: version_quote_def text_of_def)

lemma short_no_prefix:
  assumes "t \<noteq> []" "length t < 9"
  shows "\<not> prefix version_quote (t @ version_quote @ u)"
proof -
  obtain a1 t1 where t: "t = a1 # t1" using assms(1) by (cases t) auto
  show ?thesis
  proof (cases t1)
    case Nil then show ?thesis using t by (simp add: version_quote_def text_of_def)
  next
    case (Cons a2 t2)
    show ?thesis
    proof (cases t2)
      case Nil then show ?thesis using t Cons by (simp add: version_quote_def text_of_def)
    next
      case (Cons a3 t3)
      note c3 = this
      show ?thesis
      proof (cases t3)
        case Nil then show ?thesis using t \<open>t1 = a2 # t2\<close> c3 by (simp add: version_quote_def text_of_def)
      next
        case (Cons a4 t4)
        note c4 = this
        show ?thesis
        proof (cases t4)
          case Nil then show ?thesis using t \<open>t1 = a2 # t2\<close> c3 c4 by (simp add: version_quote_def text_of_def)
        next
          case (Cons a5 t5)
          note c5 = this
          show ?thesis
          proof (cases t5)
            case Nil then show ?thesis using t \<open>t1 = a2 # t2\<close> c3 c4 c5 by (simp add: version_quote_def text_of_def)
          next
            case (Cons a6 t6)
            note c6 = this
            show ?thesis
            proof (cases t6)
              case Nil then show ?thesis using t \<open>t1 = a2 # t2\<close> c3 c4 c5 c6 by (simp add: version_quote_def text_of_def)
            next
              case (Cons a7 t7)
              note c7 = this
              show ?thesis
              proof (cases t7)
                case Nil then show ?thesis using t \<open>t1 = a2 # t2\<close> c3 c4 c5 c6 c7 by (simp add: version_quote_def text_of_def)
              next
                case (Cons a8 t8)
                then have "t8 = []" using assms(2) t \<open>t1 = a2 # t2\<close> c3 c4 c5 c6 c7 by simp
                then show ?thesis using t \<open>t1 = a2 # t2\<close> c3 c4 c5 c6 c7 Cons by (simp add: version_quote_def text_of_def)
              qed
            qed
          qed
        qed
      qed
    qed
  qed
qed

lemma prefix_append_long:
  assumes "length q \<le> length t"
  shows "prefix q (t @ u) = prefix q t"
proof
  assume "prefix q (t @ u)"
  moreover have "prefix t (t @ u)" by simp
  ultimately show "prefix q t" using assms by (rule prefix_length_prefix)
next
  assume "prefix q t"
  then show "prefix q (t @ u)" by simp
qed

lemma match_version_extend_None:
  assumes "match_version table t = None" "t \<noteq> []"
  shows "match_version table (t @ version_quote @ u) = None"
proof (cases "length t < 9")
  case True
  then show ?thesis using short_no_prefix [OF assms(2) True] by (simp add: match_version_def)
next
  case False
  then have len: "9 \<le> length t" by simp
  note lq = length_version_quote
  show ?thesis
  proof (cases "prefix version_quote t")
    case False
    then have "\<not> prefix version_quote (t @ version_quote @ u)"
      using len lq by (simp add: prefix_append_long)
    then show ?thesis by (simp add: match_version_def)
  next
    case True
    with assms(1) have tw: "takeWhile (is_digit table) (drop 9 t) = []"
      by (simp add: match_version_def lq Let_def split: if_splits)
    have "takeWhile (is_digit table) (drop 9 t @ version_quote @ u) = []"
    proof (cases "drop 9 t")
      case Nil
      then show ?thesis
        by (subst hd_version_quote) (simp add: not_is_digit_ascii)
    next
      case (Cons a list)
      with tw show ?thesis by (simp split: if_splits)
    qed
    then show ?thesis using len by (simp add: match_version_def lq Let_def)
  qed
qed

lemma re_search_version_append:
  assumes "re_search_version table pre = None"
  shows "re_search_version table (pre @ version_quote @ u) =
         re_search_version table (version_quote @ u)"
  using assms
proof (induction pre)
  case Nil
  then show ?case by simp
next
  case (Cons c cs)
  from Cons.prems have m: "match_version table (c # cs) = None"
    and r: "re_search_version table cs = None"
    by (auto split: option.splits)
  have "match_version table ((c # cs) @ version_quote @ u) = None"
    by (rule match_version_extend_None [OF m]) simp
  then show ?case using Cons.IH [OF r] by simp
qed

lemma re_search_version_here:
  "match_version table t = Some ds \<Longrightarrow> re_search_version table t = Some ds"
  by (cases t) (simp_all add: match_version_def version_quote_def text_of_def)

lemma re_search_version_token:
  assumes "re_search_version table pre = None" "ds \<noteq> []" "list_all (is_digit table) ds"
    and "post = [] \<or> \<not> is_digit table (hd post)"
  shows "re_search_version table (pre @ version_quote @ ds @ post) = Some ds"
proof -
  have tw: "takeWhile (is_digit table) (ds @ post) = ds"
    using assms(3,4) by (cases post) (auto simp: list_all_iff)
  have "match_version table (version_quote @ ds @ post) = Some ds"
    using tw assms(2) by (simp add: match_version_def Let_def)
  then have "re_search_version table (version_quote @ ds @ post) = Some ds"
    by (rule re_search_version_here)
  then show ?thesis using re_search_version_append [OF assms(1)] by simp
qed

lemma re_search_version_digits:
  "re_search_version table t = Some ds \<Longrightarrow> ds \<noteq> [] \<and> list_all (is_digit table) ds"
proof (induction t)
  case Nil
  then show ?case by simp
next
  case (Cons c cs)
  show ?case
  proof (cases "match_version table (c # cs)")
    case None
    with Cons show ?thesis by simp
  next
    case (Some x)
    with Cons.prems have "x = ds" by simp
    with Some show ?thesis
      by (auto simp: match_version_def Let_def list_all_iff split: if_splits
          dest: set_takeWhileD)
  qed
qed


text \<open>
  C2. When the version command completes, the check accepts exactly when the search for
  \<^verbatim>\<open>version "<digits>\<close> in the text of the error stream finds a token and
  \<^verbatim>\<open>int\<close> reads its digits as 25; every other outcome is \<^verbatim>\<open>sys.exit(1)\<close>, in
  particular a text without such a token; on success the last line printed is
  \<^verbatim>\<open>Found Java 25.\<close> In terms of the text: when the first token of the error stream
  is \<^verbatim>\<open>version "\<close> followed by the digits \<open>ds\<close> and then by something that is not a
  digit, the check accepts exactly when \<open>ds\<close> is within the limit of \<^verbatim>\<open>int\<close> on the
  length of a text and denotes 25 (so 24 and 26 are rejected: equality, not a minimum).
\<close>

theorem check_java_version_accepts_exactly_25:
  assumes "subprocess_run w [''java'', ''-version''] = Inr result"
  shows "(fst (check_java_version w s) = Inr ()) =
           (\<exists>ds. re_search_version (unicode_decimal w) (stderr result) = Some ds \<and>
                 py_int w ds = Inr 25) \<and>
         (fst (check_java_version w s) = Inr () \<or>
            fst (check_java_version w s) = Inl (SysExit 1)) \<and>
         (fst (check_java_version w s) = Inr () \<longrightarrow>
            snd (check_java_version w s) =
              s\<lparr>events := events s @ [Invoked [''java'', ''-version''] None,
                                        Printed ''Found Java 25.'']\<rparr>) \<and>
         (re_search_version (unicode_decimal w) (stderr result) = None \<longrightarrow>
            fst (check_java_version w s) = Inl (SysExit 1)) \<and>
         (\<forall>pre ds post.
            stderr result = pre @ version_quote @ ds @ post \<and>
            re_search_version (unicode_decimal w) pre = None \<and>
            ds \<noteq> [] \<and> list_all (is_digit (unicode_decimal w)) ds \<and>
            (post = [] \<or> \<not> is_digit (unicode_decimal w) (hd post)) \<longrightarrow>
            (fst (check_java_version w s) = Inr ()) =
              (\<not> (640 < length ds \<and> 0 < int_max_str_digits w \<and>
                  int_max_str_digits w < length ds) \<and>
               digits_value (unicode_decimal w) ds = 25))"
proof -
  let ?ok = "fst (check_java_version w s) = Inr ()"
  let ?tb = "unicode_decimal w"
  have run: "(?ok = (\<exists>ds. re_search_version ?tb (stderr result) = Some ds \<and>
                         py_int w ds = Inr 25)) \<and>
      (?ok \<or> fst (check_java_version w s) = Inl (SysExit 1)) \<and>
      (?ok \<longrightarrow> snd (check_java_version w s) =
          s\<lparr>events := events s @ [Invoked [''java'', ''-version''] None,
                                    Printed ''Found Java 25.'']\<rparr>) \<and>
      (re_search_version ?tb (stderr result) = None \<longrightarrow>
          fst (check_java_version w s) = Inl (SysExit 1))"
  proof (cases "re_search_version ?tb (stderr result)")
    case None
    then show ?thesis
      using check_java_version_unparsed [OF assms None, of s] by simp
  next
    case (Some ds)
    show ?thesis
    proof (cases "py_int w ds")
      case (Inl e)
      then show ?thesis
        using check_java_version_int_raised [OF assms Some Inl, of s] Some by simp
    next
      case (Inr v)
      show ?thesis
      proof (cases "v = 25")
        case True
        with Inr have "py_int w ds = Inr 25" by simp
        then show ?thesis
          using check_java_version_25 [OF assms Some, of s] Some by simp
      next
        case False
        then show ?thesis
          using check_java_version_other [OF assms Some Inr False, of s] Some Inr by simp
      qed
    qed
  qed
  have token: "?ok =
      (\<not> (640 < length ds \<and> 0 < int_max_str_digits w \<and> int_max_str_digits w < length ds) \<and>
       digits_value ?tb ds = 25)"
    if "stderr result = pre @ version_quote @ ds @ post \<and>
        re_search_version ?tb pre = None \<and>
        ds \<noteq> [] \<and> list_all (is_digit ?tb) ds \<and> (post = [] \<or> \<not> is_digit ?tb (hd post))"
    for pre ds post
  proof -
    from that have "re_search_version ?tb (stderr result) = Some ds"
      by (simp add: re_search_version_token)
    with run have "?ok = (py_int w ds = Inr 25)" by simp
    also have "\<dots> =
      (\<not> (640 < length ds \<and> 0 < int_max_str_digits w \<and> int_max_str_digits w < length ds) \<and>
       digits_value ?tb ds = 25)"
      using that by (intro py_int_digits) simp_all
    finally show ?thesis .
  qed
  from run token show ?thesis by blast
qed

lemma text_of_java_banner:
  "text_of (java_banner v) =
     text_of ''openjdk '' @ version_quote @ text_of v @ text_of ([CHR 0x22] @ '' 2025-09-16'')"
  by (simp add: java_banner_def version_quote_def text_of_def)

lemma re_search_openjdk: "re_search_version table (text_of ''openjdk '') = None"
  by (simp add: match_version_def version_quote_def text_of_def)

lemma re_search_banner:
  assumes "ds \<noteq> []" and "list_all (is_digit table) (text_of ds)"
    and "\<not> is_digit table (hd (text_of post @ text_of ([CHR 0x22] @ '' 2025-09-16'')))"
  shows "re_search_version table (text_of (java_banner (ds @ post))) = Some (text_of ds)"
proof -
  have d: "text_of ds \<noteq> []" using assms(1) by (simp add: text_of_def)
  have e: "text_of (java_banner (ds @ post)) =
      text_of ''openjdk '' @ version_quote @ text_of ds
        @ (text_of post @ text_of ([CHR 0x22] @ '' 2025-09-16''))"
    by (simp add: text_of_java_banner) (simp add: text_of_def)
  show ?thesis
    unfolding e
    by (rule re_search_version_token [OF re_search_openjdk d assms(2)]) (rule disjI2, rule assms(3))
qed

lemma banner_versions:
  "re_search_version table (text_of (java_banner ''25.0.1'')) = Some (text_of ''25'')"
  "re_search_version table (text_of (java_banner ''24.0.2'')) = Some (text_of ''24'')"
  "re_search_version table (text_of (java_banner ''21.0.2'')) = Some (text_of ''21'')"
  "re_search_version table (text_of (java_banner ''26'')) = Some (text_of ''26'')"
  using re_search_banner [of "''25''" table "''.0.1''"]
    re_search_banner [of "''24''" table "''.0.2''"]
    re_search_banner [of "''21''" table "''.0.2''"]
    re_search_banner [of "''26''" table "[]"]
  by (simp_all add: text_of_def is_digit_def decimal_def)

lemma py_int_versions:
  "py_int w (text_of ''25'') = Inr 25" "py_int w (text_of ''24'') = Inr 24"
  "py_int w (text_of ''21'') = Inr 21" "py_int w (text_of ''26'') = Inr 26"
  by (simp_all add: py_int_def text_of_def is_digit_def decimal_def digits_value_def)


lemma arabic_indic_version:
  "re_search_version (unicode_decimal example_world) arabic_indic_banner = Some [1634, 1637]"
  "py_int example_world [1634, 1637] = Inr 25"
proof -
  show "re_search_version (unicode_decimal example_world) arabic_indic_banner =
      Some [1634, 1637]"
    unfolding arabic_indic_banner_def
    by (rule re_search_version_token [OF re_search_openjdk])
      (simp_all add: is_digit_def decimal_def example_world_def text_of_def)
  show "py_int example_world [1634, 1637] = Inr 25"
    by (simp add: py_int_def is_digit_def decimal_def digits_value_def example_world_def)
qed

lemma overlong_version:
  "re_search_version (unicode_decimal example_world) overlong_banner =
     Some (replicate 4299 48 @ [50, 53])"
  "py_int example_world (replicate 4299 48 @ [50, 53]) =
     Inl (str_value_error example_world (replicate 4299 48 @ [50, 53]))"
proof -
  have d: "list_all (is_digit (unicode_decimal example_world)) (replicate 4299 48 @ [50, 53])"
    by (simp add: list_all_iff is_digit_def decimal_def)
  show "re_search_version (unicode_decimal example_world) overlong_banner =
      Some (replicate 4299 48 @ [50, 53])"
    unfolding overlong_banner_def
    by (rule re_search_version_token [OF re_search_openjdk _ d])
      (simp_all add: text_of_def is_digit_def decimal_def)
  show "py_int example_world (replicate 4299 48 @ [50, 53]) =
     Inl (str_value_error example_world (replicate 4299 48 @ [50, 53]))"
    using d by (simp add: py_int_def example_world_def)
qed

theorem check_java_version_accepts_exactly_25_witness:
  "fst (check_java_version
         (example_world\<lparr>subprocess_run := java_reports 0 [] (java_banner ''25.0.1'')\<rparr>)
         empty_state) = Inr () \<and>
   fst (check_java_version
         (example_world\<lparr>subprocess_run := java_reports 0 [] (java_banner ''24.0.2'')\<rparr>)
         empty_state) = Inl (SysExit 1) \<and>
   fst (check_java_version
         (example_world\<lparr>subprocess_run := java_reports 0 [] (java_banner ''26'')\<rparr>)
         empty_state) = Inl (SysExit 1) \<and>
   fst (check_java_version
         (example_world\<lparr>subprocess_run := java_reports 0 [] ''java: command failed''\<rparr>)
         empty_state) = Inl (SysExit 1) \<and>
   fst (check_java_version
         (example_world\<lparr>subprocess_run := java_stderr arabic_indic_banner\<rparr>)
         empty_state) = Inr () \<and>
   fst (check_java_version
         (example_world\<lparr>subprocess_run := java_stderr overlong_banner\<rparr>)
         empty_state) = Inl (SysExit 1)"
proof -
  note T = check_java_version_accepts_exactly_25
  have tb: "unicode_decimal (example_world\<lparr>subprocess_run := f\<rparr>) =
      unicode_decimal example_world" for f
    by simp
  have pi: "py_int (example_world\<lparr>subprocess_run := f\<rparr>) ds = py_int example_world ds"
    for f ds
    by (simp add: py_int_def)
  have none: "re_search_version table (text_of ''java: command failed'') = None" for table
    by (simp add: match_version_def version_quote_def text_of_def)
  have 1: "fst (check_java_version
      (example_world\<lparr>subprocess_run := java_reports 0 [] (java_banner ''25.0.1'')\<rparr>)
      empty_state) = Inr ()"
    using T [of "example_world\<lparr>subprocess_run := java_reports 0 [] (java_banner ''25.0.1'')\<rparr>"
        "\<lparr>returncode = 0, stdout = text_of [], stderr = text_of (java_banner ''25.0.1'')\<rparr>"
        empty_state, THEN conjunct1]
    by (simp add: java_reports_def banner_versions py_int_versions
        del: re_search_version.simps)
  have 2: "fst (check_java_version
      (example_world\<lparr>subprocess_run := java_reports 0 [] (java_banner ''24.0.2'')\<rparr>)
      empty_state) = Inl (SysExit 1)"
    using T [of "example_world\<lparr>subprocess_run := java_reports 0 [] (java_banner ''24.0.2'')\<rparr>"
        "\<lparr>returncode = 0, stdout = text_of [], stderr = text_of (java_banner ''24.0.2'')\<rparr>"
        empty_state, THEN conjunct1]
      T [of "example_world\<lparr>subprocess_run := java_reports 0 [] (java_banner ''24.0.2'')\<rparr>"
        "\<lparr>returncode = 0, stdout = text_of [], stderr = text_of (java_banner ''24.0.2'')\<rparr>"
        empty_state, THEN conjunct2, THEN conjunct1]
    by (simp add: java_reports_def banner_versions py_int_versions
        del: re_search_version.simps)
  have 3: "fst (check_java_version
      (example_world\<lparr>subprocess_run := java_reports 0 [] (java_banner ''26'')\<rparr>)
      empty_state) = Inl (SysExit 1)"
    using T [of "example_world\<lparr>subprocess_run := java_reports 0 [] (java_banner ''26'')\<rparr>"
        "\<lparr>returncode = 0, stdout = text_of [], stderr = text_of (java_banner ''26'')\<rparr>"
        empty_state, THEN conjunct1]
      T [of "example_world\<lparr>subprocess_run := java_reports 0 [] (java_banner ''26'')\<rparr>"
        "\<lparr>returncode = 0, stdout = text_of [], stderr = text_of (java_banner ''26'')\<rparr>"
        empty_state, THEN conjunct2, THEN conjunct1]
    by (simp add: java_reports_def banner_versions py_int_versions
        del: re_search_version.simps)
  have 4: "fst (check_java_version
      (example_world\<lparr>subprocess_run := java_reports 0 [] ''java: command failed''\<rparr>)
      empty_state) = Inl (SysExit 1)"
    using T [of "example_world\<lparr>subprocess_run := java_reports 0 [] ''java: command failed''\<rparr>"
        "\<lparr>returncode = 0, stdout = text_of [], stderr = text_of ''java: command failed''\<rparr>"
        empty_state, THEN conjunct1]
      T [of "example_world\<lparr>subprocess_run := java_reports 0 [] ''java: command failed''\<rparr>"
        "\<lparr>returncode = 0, stdout = text_of [], stderr = text_of ''java: command failed''\<rparr>"
        empty_state, THEN conjunct2, THEN conjunct1]
    by (simp add: java_reports_def none del: re_search_version.simps)
  have 5: "fst (check_java_version
      (example_world\<lparr>subprocess_run := java_stderr arabic_indic_banner\<rparr>)
      empty_state) = Inr ()"
    using T [of "example_world\<lparr>subprocess_run := java_stderr arabic_indic_banner\<rparr>"
        "\<lparr>returncode = 0, stdout = [], stderr = arabic_indic_banner\<rparr>"
        empty_state, THEN conjunct1]
    by (simp add: java_stderr_def tb pi arabic_indic_version del: re_search_version.simps)
  have 6: "fst (check_java_version
      (example_world\<lparr>subprocess_run := java_stderr overlong_banner\<rparr>)
      empty_state) = Inl (SysExit 1)"
    using T [of "example_world\<lparr>subprocess_run := java_stderr overlong_banner\<rparr>"
        "\<lparr>returncode = 0, stdout = [], stderr = overlong_banner\<rparr>"
        empty_state, THEN conjunct1]
      T [of "example_world\<lparr>subprocess_run := java_stderr overlong_banner\<rparr>"
        "\<lparr>returncode = 0, stdout = [], stderr = overlong_banner\<rparr>"
        empty_state, THEN conjunct2, THEN conjunct1]
    by (simp add: java_stderr_def tb pi overlong_version del: re_search_version.simps)
  from 1 2 3 4 5 6 show ?thesis by simp
qed

lemma py_int_same_interpreter:
  assumes "unicode_decimal w' = unicode_decimal w"
    and "int_max_str_digits w' = int_max_str_digits w"
    and "str_value_error w' = str_value_error w"
  shows "py_int w' = py_int w"
  using assms by (intro ext) (simp add: py_int_def)

lemma py_int_subprocess_run: "py_int (w\<lparr>subprocess_run := f\<rparr>) = py_int w"
  by (rule py_int_same_interpreter) simp_all

text \<open>
  C10. The version check reads the error stream of the child and nothing else: replacing
  the exit status and the standard output of the version command by any others leaves the
  outcome of the check as it is, and two hosts with the same interpreter whose version
  commands complete with the same error text get the same outcome. So when the command
  exits with any status, zero or not, its error text holds a token and \<^verbatim>\<open>int\<close> reads
  the digits of the token as 25, the check of the prerequisites succeeds (with every tool
  installed) and the run goes on with step 3. When \<^verbatim>\<open>int\<close> raises on the digits, or
  the error text holds no token (whatever is on the standard output), the check ends with
  \<^verbatim>\<open>sys.exit(1)\<close>.
\<close>

theorem check_java_version_reads_stderr_only:
  "check_java_version
     (w\<lparr>subprocess_run :=
          (\<lambda>a. map_sum id (\<lambda>r. r\<lparr>returncode := rc, stdout := out\<rparr>) (subprocess_run w a))\<rparr>) s =
   check_java_version w s \<and>
   (subprocess_run w [''java'', ''-version''] = Inr r \<and>
    subprocess_run w' [''java'', ''-version''] = Inr r' \<and> stderr r = stderr r' \<and>
    unicode_decimal w' = unicode_decimal w \<and> int_max_str_digits w' = int_max_str_digits w \<and>
    str_value_error w' = str_value_error w \<longrightarrow>
      check_java_version w s = check_java_version w' s) \<and>
   (subprocess_run w [''java'', ''-version''] = Inr r \<and>
    re_search_version (unicode_decimal w) (stderr r) = Some ds \<and> py_int w ds = Inr 25 \<and>
    (\<forall>c \<in> set required_tools. which w c \<noteq> None) \<longrightarrow>
      check_prerequisites w s =
        (Inr (), s\<lparr>events := events s @ [Invoked [''java'', ''-version''] None,
                                           Printed ''Found Java 25.'']\<rparr>) \<and>
      main w s =
        bind (setup_temporary_directory w)
          (\<lambda>_. bind (clone_repository w)
            (\<lambda>_. bind (run_maven w) (\<lambda>_. copy_generated_files w)))
          (s\<lparr>events := events s @ [Invoked [''java'', ''-version''] None,
                                    Printed ''Found Java 25.'']\<rparr>)) \<and>
   (subprocess_run w [''java'', ''-version''] = Inr r \<and>
    re_search_version (unicode_decimal w) (stderr r) = Some ds \<and> py_int w ds = Inl e \<longrightarrow>
      fst (check_java_version w s) = Inl (SysExit 1)) \<and>
   (subprocess_run w [''java'', ''-version''] = Inr r \<and>
    re_search_version (unicode_decimal w) (stderr r) = None \<longrightarrow>
      fst (check_java_version w s) = Inl (SysExit 1))"
proof (intro conjI impI)
  show "check_java_version
     (w\<lparr>subprocess_run :=
          (\<lambda>a. map_sum id (\<lambda>r. r\<lparr>returncode := rc, stdout := out\<rparr>) (subprocess_run w a))\<rparr>) s =
   check_java_version w s"
    by (cases "subprocess_run w [''java'', ''-version'']")
      (simp_all add: check_java_version_def py_int_subprocess_run
        cong: option.case_cong sum.case_cong)
next
  assume a: "subprocess_run w [''java'', ''-version''] = Inr r \<and>
    subprocess_run w' [''java'', ''-version''] = Inr r' \<and> stderr r = stderr r' \<and>
    unicode_decimal w' = unicode_decimal w \<and> int_max_str_digits w' = int_max_str_digits w \<and>
    str_value_error w' = str_value_error w"
  then show "check_java_version w s = check_java_version w' s"
    by (simp add: check_java_version_def py_int_same_interpreter [of w' w]
        cong: option.case_cong sum.case_cong)
next
  assume a: "subprocess_run w [''java'', ''-version''] = Inr r \<and>
    re_search_version (unicode_decimal w) (stderr r) = Some ds \<and> py_int w ds = Inr 25 \<and>
    (\<forall>c \<in> set required_tools. which w c \<noteq> None)"
  then have j: "check_java_version w s =
      (Inr (), s\<lparr>events := events s @ [Invoked [''java'', ''-version''] None,
                                         Printed ''Found Java 25.'']\<rparr>)"
    by (simp add: check_java_version_25)
  from a have p: "check_prerequisites w s = check_java_version w s"
    by (simp add: check_prerequisites_installed)
  from p j show c: "check_prerequisites w s =
      (Inr (), s\<lparr>events := events s @ [Invoked [''java'', ''-version''] None,
                                         Printed ''Found Java 25.'']\<rparr>)"
    by simp
  show "main w s =
        bind (setup_temporary_directory w)
          (\<lambda>_. bind (clone_repository w)
            (\<lambda>_. bind (run_maven w) (\<lambda>_. copy_generated_files w)))
          (s\<lparr>events := events s @ [Invoked [''java'', ''-version''] None,
                                    Printed ''Found Java 25.'']\<rparr>)"
    using c by (simp add: main_def bind_def)
next
  assume "subprocess_run w [''java'', ''-version''] = Inr r \<and>
    re_search_version (unicode_decimal w) (stderr r) = Some ds \<and> py_int w ds = Inl e"
  then show "fst (check_java_version w s) = Inl (SysExit 1)"
    by (simp add: check_java_version_int_raised)
next
  assume "subprocess_run w [''java'', ''-version''] = Inr r \<and>
    re_search_version (unicode_decimal w) (stderr r) = None"
  then show "fst (check_java_version w s) = Inl (SysExit 1)"
    by (simp add: check_java_version_unparsed)
qed

theorem check_java_version_reads_stderr_only_witness:
  "check_prerequisites
     (example_world\<lparr>subprocess_run := java_reports 1 ''usage'' (java_banner ''25.0.1'')\<rparr>)
     empty_state =
     (Inr (), \<lparr>tree = [], events = [Invoked [''java'', ''-version''] None,
                                     Printed ''Found Java 25.'']\<rparr>) \<and>
   check_java_version
     (example_world\<lparr>subprocess_run := java_reports 1 ''usage'' (java_banner ''25.0.1'')\<rparr>)
     empty_state =
   check_java_version example_world empty_state \<and>
   fst (check_java_version
     (example_world\<lparr>subprocess_run :=
        (\<lambda>_. Inr \<lparr>returncode = 1, stdout = [], stderr = overlong_banner\<rparr>)\<rparr>)
     empty_state) = Inl (SysExit 1) \<and>
   fst (check_java_version
     (example_world\<lparr>subprocess_run := java_reports 0 (java_banner ''25.0.1'') []\<rparr>)
     empty_state) = Inl (SysExit 1)"
proof -
  note T = check_java_version_reads_stderr_only
  let ?w = "example_world\<lparr>subprocess_run := java_reports 1 ''usage'' (java_banner ''25.0.1'')\<rparr>"
  have 1: "check_prerequisites ?w empty_state =
     (Inr (), \<lparr>tree = [], events = [Invoked [''java'', ''-version''] None,
                                     Printed ''Found Java 25.'']\<rparr>)"
    using T [THEN conjunct2, THEN conjunct2, THEN conjunct1, of ?w
        "\<lparr>returncode = 1, stdout = text_of ''usage'', stderr = text_of (java_banner ''25.0.1'')\<rparr>"
        "text_of ''25''" empty_state]
    by (simp add: java_reports_def banner_versions py_int_versions required_tools_def
        example_world_def empty_state_def del: re_search_version.simps)
  have 2: "check_java_version ?w empty_state = check_java_version example_world empty_state"
    using T [THEN conjunct2, THEN conjunct1, of ?w
        "\<lparr>returncode = 1, stdout = text_of ''usage'', stderr = text_of (java_banner ''25.0.1'')\<rparr>"
        example_world
        "\<lparr>returncode = 0, stdout = text_of [], stderr = text_of (java_banner ''25.0.1'')\<rparr>"
        empty_state]
    by (simp add: java_reports_def example_world_def)
  note pi = py_int_subprocess_run
  have 3: "fst (check_java_version
     (example_world\<lparr>subprocess_run :=
        (\<lambda>_. Inr \<lparr>returncode = 1, stdout = [], stderr = overlong_banner\<rparr>)\<rparr>)
     empty_state) = Inl (SysExit 1)"
    using T [THEN conjunct2, THEN conjunct2, THEN conjunct2, THEN conjunct1,
        of "example_world\<lparr>subprocess_run :=
              (\<lambda>_. Inr \<lparr>returncode = 1, stdout = [], stderr = overlong_banner\<rparr>)\<rparr>"
        "\<lparr>returncode = 1, stdout = [], stderr = overlong_banner\<rparr>"
        "replicate 4299 48 @ [50, 53]"
        "str_value_error example_world (replicate 4299 48 @ [50, 53])" empty_state]
    by (simp add: pi overlong_version del: re_search_version.simps)
  have none: "re_search_version table (text_of []) = None" for table
    by (simp add: text_of_def)
  have 4: "fst (check_java_version
     (example_world\<lparr>subprocess_run := java_reports 0 (java_banner ''25.0.1'') []\<rparr>)
     empty_state) = Inl (SysExit 1)"
    using T [THEN conjunct2, THEN conjunct2, THEN conjunct2, THEN conjunct2,
        of "example_world\<lparr>subprocess_run := java_reports 0 (java_banner ''25.0.1'') []\<rparr>"
        "\<lparr>returncode = 0, stdout = text_of (java_banner ''25.0.1''), stderr = text_of []\<rparr>"
        empty_state]
    by (simp add: java_reports_def none del: re_search_version.simps)
  from 1 2 3 4 show ?thesis by simp
qed
section \<open>Running a command\<close>

lemma run_command_succeeded:
  assumes "check_call w command cwd (tree s) = Exited 0 t"
  shows "run_command w command cwd s =
    (Inr (), \<lparr>tree = t,
              events = events s @ [Printed (''Running: '' @ join_spaces command),
                                   Invoked command cwd]\<rparr>)"
  using assms by (simp add: run_command_def run_defs)

lemma run_command_failed:
  assumes "check_call w command cwd (tree s) = Exited rc t" and "rc \<noteq> 0"
  shows "run_command w command cwd s =
    (Inl (SysExit 1),
     \<lparr>tree = t,
      events = events s @ [Printed (''Running: '' @ join_spaces command),
                           Invoked command cwd,
                           Printed (''Error running command: ''
                                      @ str_called_process_error w command rc)]\<rparr>)"
  using assms by (simp add: run_command_def run_defs)

lemma run_command_not_started:
  assumes "check_call w command cwd (tree s) = NotStarted e"
  shows "run_command w command cwd s =
    (Inl (Uncaught e),
     \<lparr>tree = tree s,
      events = events s @ [Printed (''Running: '' @ join_spaces command),
                           Invoked command cwd]\<rparr>)"
  using assms by (simp add: run_command_def run_defs)

lemma run_command_invokes_once:
  "commands_invoked (events (snd (run_command w command cwd s))) =
     commands_invoked (events s) @ [(command, cwd)]"
proof (cases "check_call w command cwd (tree s)")
  case (NotStarted e)
  then show ?thesis
    by (simp add: run_command_not_started commands_invoked_append)
next
  case (Exited rc t)
  then show ?thesis
    by (cases "rc = 0")
      (simp_all add: run_command_succeeded run_command_failed commands_invoked_append)
qed

lemma run_command_os_name:
  "run_command (w\<lparr>os_name := n\<rparr>) command cwd = run_command w command cwd"
  by (simp add: run_command_def cong: if_cong child.case_cong)

text \<open>
  C8. The build step is one run of one command: the words \<^verbatim>\<open>test -P
  generate-java-files\<close> after the name \<^verbatim>\<open>mvn.cmd\<close> when \<^verbatim>\<open>os.name\<close> is
  \<^verbatim>\<open>nt\<close> and after the name \<^verbatim>\<open>mvn\<close> on every other host, with the workspace
  as working directory. What the step returns and leaves is what that run of the command
  gives: the tree the child leaves and a normal return when its status is 0, the tree the
  child leaves and \<^verbatim>\<open>sys.exit(1)\<close> after the diagnostic otherwise, the exception when
  the child cannot be started. No other step reads \<^verbatim>\<open>os.name\<close>, and the whole run
  depends on it only through the test whether it is \<^verbatim>\<open>nt\<close>.
\<close>

theorem run_maven_command:
  "mvn_cmd w =
     (if os_name w = ''nt'' then ''mvn.cmd'' else ''mvn'')
       # [''test'', ''-P'', ''generate-java-files''] \<and>
   commands_invoked (events (snd (run_maven w s))) =
     commands_invoked (events s) @ [(mvn_cmd w, Some temp_dir)] \<and>
   (\<forall>t. check_call w (mvn_cmd w) (Some temp_dir) (tree s) = Exited 0 t \<longrightarrow>
      run_maven w s =
        (Inr (),
         \<lparr>tree = t,
          events = events s @ [Printed (''Running: '' @ join_spaces (mvn_cmd w)),
                               Invoked (mvn_cmd w) (Some temp_dir)]\<rparr>)) \<and>
   (\<forall>rc t. check_call w (mvn_cmd w) (Some temp_dir) (tree s) = Exited rc t \<and> rc \<noteq> 0 \<longrightarrow>
      run_maven w s =
        (Inl (SysExit 1),
         \<lparr>tree = t,
          events = events s @ [Printed (''Running: '' @ join_spaces (mvn_cmd w)),
                               Invoked (mvn_cmd w) (Some temp_dir),
                               Printed (''Error running command: ''
                                          @ str_called_process_error w (mvn_cmd w) rc)]\<rparr>)) \<and>
   (\<forall>e. check_call w (mvn_cmd w) (Some temp_dir) (tree s) = NotStarted e \<longrightarrow>
      run_maven w s =
        (Inl (Uncaught e),
         \<lparr>tree = tree s,
          events = events s @ [Printed (''Running: '' @ join_spaces (mvn_cmd w)),
                               Invoked (mvn_cmd w) (Some temp_dir)]\<rparr>)) \<and>
   check_prerequisites (w\<lparr>os_name := n\<rparr>) = check_prerequisites w \<and>
   setup_temporary_directory (w\<lparr>os_name := n\<rparr>) = setup_temporary_directory w \<and>
   clone_repository (w\<lparr>os_name := n\<rparr>) = clone_repository w \<and>
   copy_generated_files (w\<lparr>os_name := n\<rparr>) = copy_generated_files w \<and>
   ((n = ''nt'') = (os_name w = ''nt'') \<longrightarrow> main (w\<lparr>os_name := n\<rparr>) = main w)"
proof -
  have i: "py_int (w\<lparr>os_name := n\<rparr>) = py_int w"
    by (rule py_int_same_interpreter) simp_all
  have 1: "check_prerequisites (w\<lparr>os_name := n\<rparr>) = check_prerequisites w"
    by (simp add: check_prerequisites_def check_command_installed_def check_java_version_def i
        cong: if_cong sum.case_cong option.case_cong)
  have 2: "setup_temporary_directory (w\<lparr>os_name := n\<rparr>) = setup_temporary_directory w"
    by (simp add: setup_temporary_directory_def cong: if_cong)
  have 3: "clone_repository (w\<lparr>os_name := n\<rparr>) = clone_repository w"
    by (simp add: clone_repository_def clone_command_def run_command_os_name)
  have 4: "copy_generated_files (w\<lparr>os_name := n\<rparr>) = copy_generated_files w"
    by (simp add: copy_generated_files_def cong: if_cong)
  have 5: "run_maven (w\<lparr>os_name := n\<rparr>) = run_maven w" if "(n = ''nt'') = (os_name w = ''nt'')"
    using that by (simp add: run_maven_def mvn_cmd_def run_command_os_name)
  have 6: "commands_invoked (events (snd (run_maven w s))) =
     commands_invoked (events s) @ [(mvn_cmd w, Some temp_dir)]"
    by (simp add: run_maven_def run_command_invokes_once)
  have 7: "mvn_cmd w =
     (if os_name w = ''nt'' then ''mvn.cmd'' else ''mvn'')
       # [''test'', ''-P'', ''generate-java-files'']"
    by (simp add: mvn_cmd_def)
  have 8: "\<forall>t. check_call w (mvn_cmd w) (Some temp_dir) (tree s) = Exited 0 t \<longrightarrow>
      run_maven w s =
        (Inr (),
         \<lparr>tree = t,
          events = events s @ [Printed (''Running: '' @ join_spaces (mvn_cmd w)),
                               Invoked (mvn_cmd w) (Some temp_dir)]\<rparr>)"
    unfolding run_maven_def by (intro allI impI) (rule run_command_succeeded)
  have 9: "\<forall>rc t. check_call w (mvn_cmd w) (Some temp_dir) (tree s) = Exited rc t \<and> rc \<noteq> 0 \<longrightarrow>
      run_maven w s =
        (Inl (SysExit 1),
         \<lparr>tree = t,
          events = events s @ [Printed (''Running: '' @ join_spaces (mvn_cmd w)),
                               Invoked (mvn_cmd w) (Some temp_dir),
                               Printed (''Error running command: ''
                                          @ str_called_process_error w (mvn_cmd w) rc)]\<rparr>)"
    unfolding run_maven_def by (intro allI impI) (rule run_command_failed, simp_all)
  have 10: "\<forall>e. check_call w (mvn_cmd w) (Some temp_dir) (tree s) = NotStarted e \<longrightarrow>
      run_maven w s =
        (Inl (Uncaught e),
         \<lparr>tree = tree s,
          events = events s @ [Printed (''Running: '' @ join_spaces (mvn_cmd w)),
                               Invoked (mvn_cmd w) (Some temp_dir)]\<rparr>)"
    unfolding run_maven_def by (intro allI impI) (rule run_command_not_started)
  have 11: "(n = ''nt'') = (os_name w = ''nt'') \<longrightarrow> main (w\<lparr>os_name := n\<rparr>) = main w"
    using 1 2 3 4 5 by (simp add: main_def)
  from 1 2 3 4 6 7 8 9 10 11 show ?thesis by blast
qed

theorem run_maven_command_witness:
  "mvn_cmd (example_world\<lparr>os_name := ''nt''\<rparr>) =
     [''mvn.cmd'', ''test'', ''-P'', ''generate-java-files''] \<and>
   mvn_cmd example_world = [''mvn'', ''test'', ''-P'', ''generate-java-files''] \<and>
   main (example_world\<lparr>os_name := ''java''\<rparr>) = main example_world \<and>
   run_maven example_world \<lparr>tree = [(''tmp_datasketches_java'', Dir cloned_project)], events = []\<rparr> =
     (Inr (),
      \<lparr>tree = [(''tmp_datasketches_java'', Dir (built_project generated_files))],
       events = [Printed ''Running: mvn test -P generate-java-files'',
                 Invoked [''mvn'', ''test'', ''-P'', ''generate-java-files'']
                   (Some [''tmp_datasketches_java''])]\<rparr>) \<and>
   run_maven (example_world\<lparr>check_call := failing_child ''mvn'' 1\<rparr>)
       \<lparr>tree = [(''tmp_datasketches_java'', Dir cloned_project)], events = []\<rparr> =
     (Inl (SysExit 1),
      \<lparr>tree = [(''tmp_datasketches_java'', Dir cloned_project)],
       events = [Printed ''Running: mvn test -P generate-java-files'',
                 Invoked [''mvn'', ''test'', ''-P'', ''generate-java-files'']
                   (Some [''tmp_datasketches_java'']),
                 Printed ''Error running command: Command failed.'']\<rparr>)"
proof -
  note T = run_maven_command
  let ?s = "\<lparr>tree = [(''tmp_datasketches_java'', Dir cloned_project)], events = []\<rparr>"
  have m: "mvn_cmd example_world = [''mvn'', ''test'', ''-P'', ''generate-java-files'']"
    using T [of example_world empty_state "''java''", THEN conjunct1]
    by (simp add: example_world_def)
  have m': "mvn_cmd (example_world\<lparr>check_call := failing_child ''mvn'' 1\<rparr>) =
      [''mvn'', ''test'', ''-P'', ''generate-java-files'']"
    by (simp add: mvn_cmd_def example_world_def)
  have 1: "mvn_cmd (example_world\<lparr>os_name := ''nt''\<rparr>) =
     [''mvn.cmd'', ''test'', ''-P'', ''generate-java-files'']"
    using T [of "example_world\<lparr>os_name := ''nt''\<rparr>" empty_state "''nt''", THEN conjunct1]
    by simp
  have 2: "main (example_world\<lparr>os_name := ''java''\<rparr>) = main example_world"
    using T [of example_world empty_state "''java''"] by (simp add: example_world_def)
  have c: "check_call example_world (mvn_cmd example_world) (Some temp_dir) (tree ?s) =
      Exited 0 [(''tmp_datasketches_java'', Dir (built_project generated_files))]"
    unfolding m by (simp add: example_world_def example_child_def temp_dir_def)
  have 3: "run_maven example_world ?s =
     (Inr (),
      \<lparr>tree = [(''tmp_datasketches_java'', Dir (built_project generated_files))],
       events = [Printed ''Running: mvn test -P generate-java-files'',
                 Invoked [''mvn'', ''test'', ''-P'', ''generate-java-files'']
                   (Some [''tmp_datasketches_java''])]\<rparr>)"
    using T [of example_world ?s "''java''", THEN conjunct2, THEN conjunct2, THEN conjunct1,
        rule_format, OF c]
    by (simp add: m temp_dir_def)
  have c': "check_call (example_world\<lparr>check_call := failing_child ''mvn'' 1\<rparr>)
        (mvn_cmd (example_world\<lparr>check_call := failing_child ''mvn'' 1\<rparr>)) (Some temp_dir)
        (tree ?s) = Exited 1 [(''tmp_datasketches_java'', Dir cloned_project)] \<and> (1::int) \<noteq> 0"
    unfolding m' by (simp add: failing_child_def)
  have 4: "run_maven (example_world\<lparr>check_call := failing_child ''mvn'' 1\<rparr>) ?s =
     (Inl (SysExit 1),
      \<lparr>tree = [(''tmp_datasketches_java'', Dir cloned_project)],
       events = [Printed ''Running: mvn test -P generate-java-files'',
                 Invoked [''mvn'', ''test'', ''-P'', ''generate-java-files'']
                   (Some [''tmp_datasketches_java'']),
                 Printed ''Error running command: Command failed.'']\<rparr>)"
    using T [of "example_world\<lparr>check_call := failing_child ''mvn'' 1\<rparr>" ?s "''java''",
        THEN conjunct2, THEN conjunct2, THEN conjunct2, THEN conjunct1, rule_format, OF c']
    by (simp add: m' temp_dir_def example_world_def mvn_cmd_def)
  from 1 m 2 3 4 show ?thesis by simp
qed
section \<open>Step 3: the temporary directory\<close>

lemma lookup_single: "lookup es [x] = map_of es x"
  by (simp split: option.splits node.splits)

lemma is_dir_single: "is_dir es [x] = (\<exists>l. map_of es x = Some (Dir l))"
  by (auto simp: is_dir_def lookup_single split: option.splits node.splits)

lemma delete_absent: "map_of es k = None \<Longrightarrow> AList.delete k es = es"
  by (rule AList.delete_id) (simp add: map_of_eq_None_iff)

lemma setup_absent:
  assumes "lookup (tree s) temp_dir = None"
  shows "setup_temporary_directory w s =
    (Inr (), s\<lparr>tree := AList.update (hd temp_dir) (Dir []) (tree s)\<rparr>)"
proof -
  from assms have "map_of (tree s) ''tmp_datasketches_java'' = None"
    by (simp add: temp_dir_def lookup_single del: lookup.simps)
  then show ?thesis
    by (simp add: setup_temporary_directory_def run_defs path_exists_def temp_dir_def)
qed

lemma setup_present:
  assumes "is_dir (tree s) temp_dir"
  shows "setup_temporary_directory w s =
    (Inr (),
     \<lparr>tree = AList.update (hd temp_dir) (Dir []) (AList.delete (hd temp_dir) (tree s)),
      events = events s @ [Printed (''Removing existing temporary directory: ''
                                      @ str_path w temp_dir)]\<rparr>)"
proof -
  from assms obtain l where l: "map_of (tree s) ''tmp_datasketches_java'' = Some (Dir l)"
    by (auto simp: temp_dir_def is_dir_single)
  have m: "map_of (AList.delete ''tmp_datasketches_java'' (tree s)) ''tmp_datasketches_java'' = None"
    by (simp add: AList.delete_conv')
  show ?thesis
    using l m
    by (simp add: setup_temporary_directory_def run_defs path_exists_def temp_dir_def
        lookup_single rmtree_def)
qed

lemma setup_on_file:
  assumes "lookup (tree s) temp_dir = Some (File c m t)"
  shows "fst (setup_temporary_directory w s) = Inl (Uncaught NotADirectoryError)"
proof -
  from assms have "map_of (tree s) ''tmp_datasketches_java'' = Some (File c m t)"
    by (simp add: temp_dir_def lookup_single del: lookup.simps)
  then show ?thesis
    by (simp add: setup_temporary_directory_def run_defs path_exists_def temp_dir_def
        rmtree_def)
qed

text \<open>
  C6. When the workspace path is absent or is a directory (what a previous run leaves),
  the reset succeeds; afterwards the workspace is a directory without entries, so nothing
  below it survives, and every path outside the workspace is as before. A second reset
  right after the first succeeds as well and leaves the same file tree.
\<close>

theorem setup_temporary_directory_idempotent:
  assumes "lookup (tree s) temp_dir = None \<or> is_dir (tree s) temp_dir"
  shows "\<exists>s1 s2.
           setup_temporary_directory w s = (Inr (), s1) \<and>
           lookup (tree s1) temp_dir = Some (Dir []) \<and>
           (\<forall>p. p \<noteq> [] \<longrightarrow> lookup (tree s1) (temp_dir @ p) = None) \<and>
           (\<forall>x p. [x] \<noteq> temp_dir \<longrightarrow> lookup (tree s1) (x # p) = lookup (tree s) (x # p)) \<and>
           setup_temporary_directory w s1 = (Inr (), s2) \<and>
           tree s2 = tree s1"
proof -
  let ?k = "hd temp_dir"
  let ?t = "AList.update ?k (Dir []) (AList.delete ?k (tree s))"
  have k: "temp_dir = [?k]" by (simp add: temp_dir_def)
  obtain s1 where s1: "setup_temporary_directory w s = (Inr (), s1)" and t1: "tree s1 = ?t"
  proof (cases "is_dir (tree s) temp_dir")
    case True
    from setup_present [OF True, of w] show ?thesis by (auto intro: that)
  next
    case False
    with assms have n: "lookup (tree s) temp_dir = None" by simp
    then have "map_of (tree s) ?k = None"
      by (simp add: temp_dir_def lookup_single del: lookup.simps)
    then have "AList.delete ?k (tree s) = tree s" by (rule delete_absent)
    with setup_absent [OF n, of w] show ?thesis by (auto intro: that)
  qed
  have d1: "is_dir (tree s1) temp_dir"
    unfolding t1 by (simp add: temp_dir_def is_dir_single AList.update_conv')
  have t2: "AList.update ?k (Dir []) (AList.delete ?k (tree s1)) = tree s1"
    unfolding t1 by (simp add: AList.delete_update_same AList.delete_idem)
  have a: "lookup (tree s1) temp_dir = Some (Dir [])"
    unfolding t1 by (simp add: temp_dir_def AList.update_conv')
  have b: "lookup (tree s1) (temp_dir @ p) = None" if "p \<noteq> []" for p
    unfolding t1 using that by (cases p) (simp_all add: temp_dir_def AList.update_conv')
  have c: "lookup (tree s1) (x # p) = lookup (tree s) (x # p)" if "[x] \<noteq> temp_dir" for x p
  proof -
    from that k have "?k \<noteq> x" by auto
    then show ?thesis unfolding t1 by (simp add: AList.update_conv' AList.delete_conv')
  qed
  from setup_present [OF d1, of w] t2 s1 a b c show ?thesis by auto
qed

theorem setup_temporary_directory_idempotent_witness:
  "\<exists>s1 s2 s3 s4.
      setup_temporary_directory example_world empty_state = (Inr (), s1) \<and>
      lookup (tree s1) temp_dir = Some (Dir []) \<and>
      setup_temporary_directory example_world s1 = (Inr (), s2) \<and>
      tree s2 = tree s1 \<and>
      setup_temporary_directory example_world used_state = (Inr (), s3) \<and>
      lookup (tree s3) temp_dir = Some (Dir []) \<and>
      lookup (tree s3) (temp_dir @ [''pom.xml'']) = None \<and>
      lookup (tree s3) [''README.md''] = Some (File ''readme'' 420 0) \<and>
      setup_temporary_directory example_world s3 = (Inr (), s4) \<and>
      tree s4 = tree s3"
proof -
  have "lookup (tree empty_state) temp_dir = None \<or> is_dir (tree empty_state) temp_dir"
    by (simp add: empty_state_def temp_dir_def)
  from setup_temporary_directory_idempotent [OF this, of example_world]
  obtain s1 s2 where
    1: "setup_temporary_directory example_world empty_state = (Inr (), s1)"
       "lookup (tree s1) temp_dir = Some (Dir [])"
       "setup_temporary_directory example_world s1 = (Inr (), s2)" "tree s2 = tree s1"
    by blast
  have "lookup (tree used_state) temp_dir = None \<or> is_dir (tree used_state) temp_dir"
    by (simp add: used_state_def temp_dir_def is_dir_single)
  from setup_temporary_directory_idempotent [OF this, of example_world]
  obtain s3 s4 where
    2: "setup_temporary_directory example_world used_state = (Inr (), s3)"
       "lookup (tree s3) temp_dir = Some (Dir [])"
       "setup_temporary_directory example_world s3 = (Inr (), s4)" "tree s4 = tree s3"
    and b: "\<forall>p. p \<noteq> [] \<longrightarrow> lookup (tree s3) (temp_dir @ p) = None"
    and f: "\<forall>x p. [x] \<noteq> temp_dir \<longrightarrow>
              lookup (tree s3) (x # p) = lookup (tree used_state) (x # p)"
    by blast
  from b have 3: "lookup (tree s3) (temp_dir @ [''pom.xml'']) = None" by simp
  have "lookup (tree s3) (''README.md'' # []) = lookup (tree used_state) (''README.md'' # [])"
    by (rule f [rule_format]) (simp add: temp_dir_def)
  then have 4: "lookup (tree s3) [''README.md''] = Some (File ''readme'' 420 0)"
    by (simp add: used_state_def)
  from 1 2 3 4 show ?thesis by blast
qed

section \<open>The file tree\<close>

lemma lookup_append:
  "lookup es (p @ q) =
     (case lookup es p of
        None \<Rightarrow> None
      | Some (File c m t) \<Rightarrow> (if q = [] then Some (File c m t) else None)
      | Some (Dir l) \<Rightarrow> lookup l q)"
proof (induction p arbitrary: es)
  case Nil
  then show ?case by simp
next
  case (Cons x p)
  show ?case
  proof (cases "map_of es x")
    case None
    then show ?thesis by simp
  next
    case (Some n)
    then show ?thesis
      using Cons.IH by (cases n) (auto split: option.splits node.splits)
  qed
qed

lemma lookup_Dir_Cons:
  "lookup es (x # p) = Some (Dir l) \<longleftrightarrow>
     (\<exists>es'. map_of es x = Some (Dir es') \<and> lookup es' p = Some (Dir l))"
  by (auto split: option.splits node.splits if_splits)

lemma lookup_empty: "p \<noteq> [] \<Longrightarrow> lookup [] p = None"
  by (cases p) simp_all

lemma store_Cons:
  "p \<noteq> [] \<Longrightarrow>
   store es (x # p) n =
     (case map_of es x of
        Some (Dir es') \<Rightarrow> AList.update x (Dir (store es' p n)) es
      | _ \<Rightarrow> es)"
  by (cases p) (auto split: option.splits node.splits)

lemma lookup_store_parent:
  "lookup es d = Some (Dir l) \<Longrightarrow>
   lookup (store es (d @ [a]) n) d = Some (Dir (AList.update a n l))"
proof (induction d arbitrary: es)
  case Nil
  then show ?case by simp
next
  case (Cons x d)
  from Cons.prems obtain es' where
    es': "map_of es x = Some (Dir es')" "lookup es' d = Some (Dir l)"
    unfolding lookup_Dir_Cons by blast
  show ?case
    using es' Cons.IH [OF es'(2)] by (simp add: store_Cons AList.update_conv')
qed

lemma lookup_store_entry:
  assumes "lookup es d = Some (Dir l)"
  shows "lookup (store es (d @ [a]) n) (d @ [b]) =
           (if a = b then Some n else lookup es (d @ [b]))"
proof -
  have 1: "lookup (store es (d @ [a]) n) (d @ [b]) = map_of (AList.update a n l) b"
    by (simp add: lookup_append [of _ d] lookup_store_parent [OF assms]
        split: option.splits node.splits)
  have 2: "lookup es (d @ [b]) = map_of l b"
    by (simp add: lookup_append [of _ d] assms split: option.splits node.splits)
  show ?thesis unfolding 1 2 by (simp add: AList.update_conv')
qed

lemma lookup_store_elsewhere:
  "x \<noteq> y \<Longrightarrow> lookup (store es (x # p) n) (y # q) = lookup es (y # q)"
  by (cases p) (auto simp: AList.update_conv' split: option.splits node.splits)

subsection \<open>Making a directory with its parents\<close>

lemma mkdir_parents_exist_ok_elsewhere:
  "mkdir_parents_exist_ok es (x # p) = Inr es' \<Longrightarrow> x \<noteq> y \<Longrightarrow>
   lookup es' (y # q) = lookup es (y # q)"
  by (auto simp: AList.update_conv' split: option.splits node.splits sum.splits)

lemma mkdir_parents_exist_ok_empty:
  "\<exists>es'. mkdir_parents_exist_ok [] p = Inr es' \<and> lookup es' p = Some (Dir [])"
  by (induction p) (auto simp: AList.update_conv')


lemma unobstructed_Cons:
  "unobstructed es (x # p) \<Longrightarrow> map_of es x = Some (Dir es') \<Longrightarrow> unobstructed es' p"
  by (auto simp: unobstructed_def list_all_iff is_file_def)

lemma unobstructed_head:
  assumes "unobstructed es (x # p)"
  shows "map_of es x \<noteq> Some (File c m t)"
proof
  assume f: "map_of es x = Some (File c m t)"
  have "[x] \<in> set (prefixes (x # p))" by simp
  with assms have "\<not> is_file es [x]" by (simp add: unobstructed_def list_all_iff)
  with f show False by (simp add: is_file_def)
qed

lemma mkdir_parents_exist_ok_makes:
  "unobstructed es p \<Longrightarrow>
   \<exists>es'. mkdir_parents_exist_ok es p = Inr es' \<and>
         lookup es' p = (if is_dir es p then lookup es p else Some (Dir []))"
proof (induction p arbitrary: es)
  case Nil
  then show ?case by (simp add: is_dir_def)
next
  case (Cons x p)
  show ?case
  proof (cases "map_of es x")
    case None
    obtain es' where "mkdir_parents_exist_ok [] p = Inr es'" "lookup es' p = Some (Dir [])"
      using mkdir_parents_exist_ok_empty by blast
    with None show ?thesis by (simp add: AList.update_conv' is_dir_def)
  next
    case (Some n)
    show ?thesis
    proof (cases n)
      case (File c m t)
      with Some unobstructed_head [OF Cons.prems] show ?thesis by simp
    next
      case (Dir l)
      with Some have u: "unobstructed l p" by (simp add: unobstructed_Cons [OF Cons.prems])
      from Cons.IH [OF u] obtain l' where
        "mkdir_parents_exist_ok l p = Inr l'"
        "lookup l' p = (if is_dir l p then lookup l p else Some (Dir []))"
        by blast
      with Some Dir show ?thesis by (simp add: AList.update_conv' is_dir_def)
    qed
  qed
qed

lemma mkdir_parents_exist_ok_entries:
  assumes "mkdir_parents_exist_ok es p = Inr es'" and "q \<noteq> []"
  shows "lookup es' (p @ q) = lookup es (p @ q)"
  using assms
proof (induction p arbitrary: es es')
  case Nil
  then show ?case by simp
next
  case (Cons x p)
  show ?case
  proof (cases "map_of es x")
    case None
    obtain l where l: "mkdir_parents_exist_ok [] p = Inr l" "lookup l p = Some (Dir [])"
      using mkdir_parents_exist_ok_empty by blast
    with None Cons.prems have "es' = AList.update x (Dir l) es" by simp
    then show ?thesis
      using None l Cons.prems(2)
      by (simp add: AList.update_conv' lookup_append [of l p] lookup_empty)
  next
    case (Some n)
    show ?thesis
    proof (cases n)
      case (File c m t)
      with Some Cons.prems show ?thesis by simp
    next
      case (Dir l)
      with Some Cons.prems obtain l' where
        l': "mkdir_parents_exist_ok l p = Inr l'" "es' = AList.update x (Dir l') es"
        by (auto split: sum.splits)
      from Cons.IH [OF l'(1) Cons.prems(2)] Some Dir l'(2) show ?thesis
        by (simp add: AList.update_conv')
    qed
  qed
qed

section \<open>Step 6: copying the generated files\<close>

lemma store_output_elsewhere:
  "y \<noteq> ''tests'' \<Longrightarrow> lookup (store t (output_dir @ [a]) n) (y # q) = lookup t (y # q)"
  by (simp add: output_dir_def lookup_store_elsewhere del: lookup.simps store.simps)

lemma store_output_generated:
  "lookup (store t (output_dir @ [a]) n) (generated_files_dir @ q) =
   lookup t (generated_files_dir @ q)"
  by (simp add: generated_files_dir_def temp_dir_def store_output_elsewhere
      del: lookup.simps store.simps)

lemma generated_files_dir_not_output_dir: "generated_files_dir \<noteq> output_dir"
  by (simp add: generated_files_dir_def temp_dir_def output_dir_def)

lemma copy2_into_output:
  assumes out: "lookup t output_dir = Some (Dir l)"
    and src: "lookup t (generated_files_dir @ [n]) = Some (File c m k)"
    and tgt: "\<not> is_dir t (output_dir @ [n])"
  shows "copy2 t (generated_files_dir @ [n]) output_dir =
           Inr (store t (output_dir @ [n]) (File c m k))"
proof -
  have d: "is_dir t output_dir" using out by (simp add: is_dir_def)
  show ?thesis
  proof (cases "lookup t (output_dir @ [n])")
    case None
    then show ?thesis
      using d src out
      by (simp add: copy2_def Let_def generated_files_dir_not_output_dir)
  next
    case (Some node)
    with tgt obtain c' m' k' where "node = File c' m' k'"
      by (cases node) (simp_all add: is_dir_def)
    with Some show ?thesis
      using d src
      by (simp add: copy2_def Let_def generated_files_dir_not_output_dir)
  qed
qed

lemma copy_loop_copies:
  assumes "is_dir (tree s) output_dir"
    and "\<forall>n \<in> set names. \<exists>c m k. lookup (tree s) (generated_files_dir @ [n]) = Some (File c m k)"
    and "\<forall>n \<in> set names. \<not> is_dir (tree s) (output_dir @ [n])"
  shows "\<exists>s'. copy_loop (map (\<lambda>n. generated_files_dir @ [n]) names) j s =
                 (Inr (j + length names), s') \<and>
              events s' = events s @ map (\<lambda>n. Printed (''Copied: '' @ n)) names \<and>
              is_dir (tree s') output_dir \<and>
              (\<forall>a. lookup (tree s') (output_dir @ [a]) =
                   (if a \<in> set names then lookup (tree s) (generated_files_dir @ [a])
                    else lookup (tree s) (output_dir @ [a]))) \<and>
              (\<forall>y q. y \<noteq> ''tests'' \<longrightarrow> lookup (tree s') (y # q) = lookup (tree s) (y # q))"
  using assms
proof (induction names arbitrary: s j)
  case Nil
  then show ?case by (simp add: return_def)
next
  case (Cons n names)
  from Cons.prems(1) obtain l where l: "lookup (tree s) output_dir = Some (Dir l)"
    by (auto simp: is_dir_def split: option.splits node.splits)
  from Cons.prems(2) obtain c m k where
    f: "lookup (tree s) (generated_files_dir @ [n]) = Some (File c m k)"
    by auto
  from Cons.prems(3) have nd: "\<not> is_dir (tree s) (output_dir @ [n])" by simp
  let ?t = "store (tree s) (output_dir @ [n]) (File c m k)"
  let ?s1 = "s\<lparr>tree := ?t, events := events s @ [Printed (''Copied: '' @ n)]\<rparr>"
  have step: "copy_loop (map (\<lambda>n. generated_files_dir @ [n]) (n # names)) j s =
      copy_loop (map (\<lambda>n. generated_files_dir @ [n]) names) (j + 1) ?s1"
    by (simp add: run_defs copy2_into_output [OF l f nd])
  have entry: "lookup ?t (output_dir @ [a]) =
      (if n = a then Some (File c m k) else lookup (tree s) (output_dir @ [a]))" for a
    by (rule lookup_store_entry [OF l])
  have 1: "is_dir (tree ?s1) output_dir"
    by (simp add: is_dir_def lookup_store_parent [OF l])
  have 2: "\<forall>a \<in> set names. \<exists>c m k.
      lookup (tree ?s1) (generated_files_dir @ [a]) = Some (File c m k)"
    using Cons.prems(2) by (simp add: store_output_generated)
  have 3: "\<forall>a \<in> set names. \<not> is_dir (tree ?s1) (output_dir @ [a])"
    using Cons.prems(3) by (simp add: is_dir_def entry)
  from Cons.IH [OF 1 2 3, of "j + 1"] obtain s' where
    r: "copy_loop (map (\<lambda>n. generated_files_dir @ [n]) names) (j + 1) ?s1 =
          (Inr (j + 1 + length names), s')"
    and e: "events s' = events ?s1 @ map (\<lambda>n. Printed (''Copied: '' @ n)) names"
    and d: "is_dir (tree s') output_dir"
    and o: "\<forall>a. lookup (tree s') (output_dir @ [a]) =
                   (if a \<in> set names then lookup (tree ?s1) (generated_files_dir @ [a])
                    else lookup (tree ?s1) (output_dir @ [a]))"
    and x: "\<forall>y q. y \<noteq> ''tests'' \<longrightarrow> lookup (tree s') (y # q) = lookup (tree ?s1) (y # q)"
    by blast
  have o': "lookup (tree s') (output_dir @ [a]) =
      (if a \<in> set (n # names) then lookup (tree s) (generated_files_dir @ [a])
       else lookup (tree s) (output_dir @ [a]))" for a
    using o [rule_format, of a] f
    by (auto simp: store_output_generated lookup_store_entry [OF l])
  have x': "lookup (tree s') (y # q) = lookup (tree s) (y # q)" if "y \<noteq> ''tests''" for y q
    using x that by (simp add: store_output_elsewhere del: lookup.simps)
  from step r e d o' x' show ?case by simp
qed


lemma output_dir_Cons:
  "output_dir = ''tests'' # [''serialization_test_data'', ''java_generated_files'']"
  by (simp add: output_dir_def)

lemma generated_files_dir_Cons:
  "generated_files_dir =
     ''tmp_datasketches_java'' # [''serialization_test_data'', ''java_generated_files'']"
  by (simp add: generated_files_dir_def temp_dir_def)

lemma copy_generated_files_missing:
  assumes "lookup (tree s) generated_files_dir = None"
  shows "copy_generated_files w s =
    (Inl (SysExit 1),
     s\<lparr>events := events s @
        [Printed (''Error: Expected generated files directory not found at ''
                    @ str_path w generated_files_dir)]\<rparr>)"
  using assms by (simp add: copy_generated_files_def run_defs path_exists_def)

text \<open>
  A regular file at the path of the generated files passes the test of line 99; the listing
  of line 107 is empty there.
\<close>

lemma glob_sk_on_file: "lookup t d = Some (File c m k) \<Longrightarrow> glob_sk t d = []"
  by (simp add: glob_sk_def)

lemma copy_generated_files_copies:
  assumes src: "lookup (tree s) generated_files_dir = Some (Dir entries)"
    and files: "\<forall>n \<in> set (listdir entries). fnmatch_sk n \<longrightarrow>
                  (\<exists>c m k. map_of entries n = Some (File c m k))"
    and dst: "unobstructed (tree s) output_dir"
    and nodir: "\<forall>n \<in> set (listdir entries). fnmatch_sk n \<longrightarrow>
                  \<not> is_dir (tree s) (output_dir @ [n])"
  shows "\<exists>s'. copy_generated_files w s = (Inr (), s') \<and>
           events s' = events s @
             [Printed (''Copying files from '' @ str_path w generated_files_dir
                         @ '' to '' @ str_path w output_dir)] @
             map (\<lambda>n. Printed (''Copied: '' @ n)) (filter fnmatch_sk (listdir entries)) @
             [Printed (if filter fnmatch_sk (listdir entries) = []
                       then ''Warning: No .sk files were found to copy.''
                       else ''Successfully copied ''
                              @ py_str (length (filter fnmatch_sk (listdir entries)))
                              @ '' files.'')] \<and>
           is_dir (tree s') output_dir \<and>
           (\<forall>a. lookup (tree s') (output_dir @ [a]) =
                  (if a \<in> set (filter fnmatch_sk (listdir entries)) then map_of entries a
                   else lookup (tree s) (output_dir @ [a]))) \<and>
           (\<forall>y q. y \<noteq> ''tests'' \<longrightarrow> lookup (tree s') (y # q) = lookup (tree s) (y # q))"
proof -
  let ?names = "filter fnmatch_sk (listdir entries)"
  let ?copying = "Printed (''Copying files from '' @ str_path w generated_files_dir
                         @ '' to '' @ str_path w output_dir)"
  have ex: "path_exists (tree s) generated_files_dir"
    using src by (simp add: path_exists_def)
  from mkdir_parents_exist_ok_makes [OF dst] obtain t1 where
    mk: "mkdir_parents_exist_ok (tree s) output_dir = Inr t1"
    and mk_dir: "lookup t1 output_dir =
                   (if is_dir (tree s) output_dir then lookup (tree s) output_dir
                    else Some (Dir []))"
    by blast
  have d1: "is_dir t1 output_dir"
    unfolding mk_dir is_dir_def by (simp add: is_dir_def split: option.splits node.splits)
  have fr1: "lookup t1 (y # q) = lookup (tree s) (y # q)" if "y \<noteq> ''tests''" for y q
    using mk that unfolding output_dir_Cons
    by (rule mkdir_parents_exist_ok_elsewhere [OF _ not_sym])
  have gen1: "lookup t1 (generated_files_dir @ q) = lookup (tree s) (generated_files_dir @ q)"
    for q
    unfolding generated_files_dir_Cons by (simp add: fr1 del: lookup.simps)
  have out1: "lookup t1 (output_dir @ [a]) = lookup (tree s) (output_dir @ [a])" for a
    by (rule mkdir_parents_exist_ok_entries [OF mk]) simp
  have src1: "lookup t1 generated_files_dir = Some (Dir entries)"
    using gen1 [of "[]"] src by simp
  have glob: "glob_sk t1 generated_files_dir = map (\<lambda>n. generated_files_dir @ [n]) ?names"
    by (simp add: glob_sk_def src1)
  have entry1: "lookup t1 (generated_files_dir @ [a]) = map_of entries a" for a
    by (simp add: lookup_append [of _ generated_files_dir] src1
        split: option.splits node.splits)
  let ?s1 = "s\<lparr>events := events s @ [?copying], tree := t1\<rparr>"
  have 1: "is_dir (tree ?s1) output_dir" using d1 by simp
  have 2: "\<forall>n \<in> set ?names. \<exists>c m k.
      lookup (tree ?s1) (generated_files_dir @ [n]) = Some (File c m k)"
    using files by (simp add: entry1)
  have 3: "\<forall>n \<in> set ?names. \<not> is_dir (tree ?s1) (output_dir @ [n])"
    using nodir by (simp add: is_dir_def out1)
  from copy_loop_copies [OF 1 2 3, of 0] obtain s2 where
    r: "copy_loop (map (\<lambda>n. generated_files_dir @ [n]) ?names) 0 ?s1 =
          (Inr (length ?names), s2)"
    and e: "events s2 = events ?s1 @ map (\<lambda>n. Printed (''Copied: '' @ n)) ?names"
    and d: "is_dir (tree s2) output_dir"
    and o: "\<forall>a. lookup (tree s2) (output_dir @ [a]) =
                   (if a \<in> set ?names then lookup (tree ?s1) (generated_files_dir @ [a])
                    else lookup (tree ?s1) (output_dir @ [a]))"
    and x: "\<forall>y q. y \<noteq> ''tests'' \<longrightarrow> lookup (tree s2) (y # q) = lookup (tree ?s1) (y # q)"
    by auto
  let ?final = "Printed (if ?names = []
                       then ''Warning: No .sk files were found to copy.''
                       else ''Successfully copied '' @ py_str (length ?names) @ '' files.'')"
  have "copy_generated_files w s =
      bind (copy_loop (map (\<lambda>n. generated_files_dir @ [n]) ?names) 0)
        (\<lambda>files_copied.
           if files_copied = 0
           then py_print ''Warning: No .sk files were found to copy.''
           else py_print (''Successfully copied '' @ py_str files_copied @ '' files.''))
        ?s1"
    using ex mk glob
    by (simp add: copy_generated_files_def bind_def fs_query_def fs_op_def py_print_def)
  also have "\<dots> = (if length ?names = 0
           then py_print ''Warning: No .sk files were found to copy.''
           else py_print (''Successfully copied '' @ py_str (length ?names) @ '' files.'')) s2"
    using r by (simp add: bind_def)
  also have "\<dots> = (Inr (), s2\<lparr>events := events s2 @ [?final]\<rparr>)"
    by (simp add: py_print_def)
  finally have run:
    "copy_generated_files w s = (Inr (), s2\<lparr>events := events s2 @ [?final]\<rparr>)" .
  have o': "lookup (tree s2) (output_dir @ [a]) =
      (if a \<in> set ?names then map_of entries a else lookup (tree s) (output_dir @ [a]))" for a
    using o [rule_format, of a] by (simp add: entry1 out1)
  have x': "lookup (tree s2) (y # q) = lookup (tree s) (y # q)" if "y \<noteq> ''tests''" for y q
    using x that by (simp add: fr1 del: lookup.simps)
  show ?thesis
    using run e d o' x' by (simp del: lookup.simps)
qed

section \<open>The run as a whole\<close>

lemma bind_assoc: "bind (bind m f) g = bind m (\<lambda>x. bind (f x) g)"
  by (auto simp: bind_def fun_eq_iff split: prod.splits sum.splits)

lemma main_before_copy: "main w = bind (before_copy w) (\<lambda>_. copy_generated_files w)"
  by (simp add: main_def before_copy_def before_build_def before_clone_def bind_assoc)

lemma main_before_build:
  "main w = bind (before_build w) (\<lambda>_. bind (run_maven w) (\<lambda>_. copy_generated_files w))"
  by (simp add: main_def before_build_def before_clone_def bind_assoc)

lemma main_before_clone:
  "main w =
     bind (before_clone w)
       (\<lambda>_. bind (clone_repository w) (\<lambda>_. bind (run_maven w) (\<lambda>_. copy_generated_files w)))"
  by (simp add: main_def before_clone_def bind_assoc)

lemma main_reaches_copy:
  "before_copy w s0 = (Inr (), s) \<Longrightarrow> main w s0 = copy_generated_files w s"
  by (simp add: main_before_copy bind_def)

subsection \<open>The example host\<close>

lemma example_prerequisites:
  "check_prerequisites (host_building built) s =
     (Inr (), s\<lparr>events := events s @ [Invoked [''java'', ''-version''] None,
                                        Printed ''Found Java 25.'']\<rparr>)"
proof -
  have i: "\<forall>c \<in> set required_tools. which (host_building built) c \<noteq> None"
    by (simp add: host_building_def example_world_def)
  have r: "subprocess_run (host_building built) [''java'', ''-version''] =
      Inr \<lparr>returncode = 0, stdout = text_of [], stderr = text_of (java_banner ''25.0.1'')\<rparr>"
    by (simp add: host_building_def example_world_def java_reports_def)
  show ?thesis
    unfolding check_prerequisites_installed [OF i]
    by (rule check_java_version_25 [OF r _ py_int_versions(1)])
      (simp add: banner_versions del: re_search_version.simps)
qed

lemma example_before_copy:
  "before_copy (host_building built) empty_state = (Inr (), built_state built)"
proof -
  let ?w = "host_building built"
  let ?s1 = "\<lparr>tree = [], events = [Invoked [''java'', ''-version''] None,
                                     Printed ''Found Java 25.'']\<rparr>"
  let ?s2 = "\<lparr>tree = [(''tmp_datasketches_java'', Dir [])],
             events = [Invoked [''java'', ''-version''] None,
                       Printed ''Found Java 25.'']\<rparr>"
  let ?s3 = "\<lparr>tree = [(''tmp_datasketches_java'', Dir cloned_project)],
        events =
         [Invoked [''java'', ''-version''] None,
          Printed ''Found Java 25.'',
          Printed (''Running: git clone https://github.com/apache/datasketches-java.git ''
                    @ ''/repo/tmp_datasketches_java''),
          Invoked [''git'', ''clone'', ''https://github.com/apache/datasketches-java.git'',
                  ''/repo/tmp_datasketches_java''] None]\<rparr>"
  have 1: "check_prerequisites ?w empty_state = (Inr (), ?s1)"
    by (simp add: example_prerequisites empty_state_def)
  have 2: "setup_temporary_directory ?w ?s1 = (Inr (), ?s2)"
    by (simp add: setup_absent temp_dir_def)
  have p: "str_path ?w temp_dir = ''/repo/tmp_datasketches_java''"
    by (simp add: host_building_def example_world_def temp_dir_def)
  have 3: "clone_repository ?w ?s2 = (Inr (), ?s3)"
    unfolding clone_repository_def
    by (subst run_command_succeeded [where t = "[(''tmp_datasketches_java'', Dir cloned_project)]"])
      (simp_all add: clone_command_def p repo_url_def host_building_def example_world_def
        example_child_def temp_dir_def)
  have 4: "run_maven ?w ?s3 = (Inr (), built_state built)"
    unfolding run_maven_def
    by (subst run_command_succeeded [where t = "[(''tmp_datasketches_java'', Dir built)]"])
      (simp_all add: mvn_cmd_def host_building_def example_world_def
        example_child_def temp_dir_def built_state_def)
  have "before_clone ?w empty_state = (Inr (), ?s2)"
    unfolding before_clone_def using 1 2 by (simp only: bind_def prod.case sum.case)
  then have "before_build ?w empty_state = (Inr (), ?s3)"
    unfolding before_build_def using 3 by (simp only: bind_def prod.case sum.case)
  then show ?thesis
    unfolding before_copy_def using 4 by (simp only: bind_def prod.case sum.case)
qed


lemma unobstructed_fresh: "unobstructed [(''tmp_datasketches_java'', n)] output_dir"
  by (simp add: unobstructed_def output_dir_def is_file_def)


lemma length_filter_remdups:
  "length (filter P (remdups xs)) = card {a \<in> set xs. P a}"
  using distinct_card [of "filter P (remdups xs)"] by simp

lemma lookup_generated_entry:
  "lookup t generated_files_dir = Some (Dir entries) \<Longrightarrow>
   lookup t (generated_files_dir @ [a]) = map_of entries a"
  by (simp add: lookup_append [of _ generated_files_dir] split: option.splits node.splits)

text \<open>
  C1 as stated fails on a source directory with an entry named \<^verbatim>\<open>*.sk\<close> that is
  a directory: the listing of line 107 yields it, \<^verbatim>\<open>shutil.copy2\<close> raises on it,
  nothing catches the exception, and a file named \<^verbatim>\<open>*.sk\<close> that the listing yields
  later is not copied.
\<close>

theorem copy_with_directory_entry_counterexample:
  "fst (main (host_building (built_project directory_entry_files)) empty_state) =
     Inl (Uncaught IsADirectoryError) \<and>
   lookup (tree (snd (main (host_building (built_project directory_entry_files)) empty_state)))
     (generated_files_dir @ [''a.sk'']) = Some (File ''A'' 420 5) \<and>
   lookup (tree (snd (main (host_building (built_project directory_entry_files)) empty_state)))
     (output_dir @ [''a.sk'']) = None"
proof -
  have "main (host_building (built_project directory_entry_files)) empty_state =
      copy_generated_files (host_building (built_project directory_entry_files))
        (built_state (built_project directory_entry_files))"
    by (rule main_reaches_copy [OF example_before_copy])
  also have "\<dots> =
      (Inl (Uncaught IsADirectoryError),
       \<lparr>tree = [(''tmp_datasketches_java'', Dir (built_project directory_entry_files)),
                (''tests'', Dir [(''serialization_test_data'',
                   Dir [(''java_generated_files'', Dir [])])])],
        events = events (built_state (built_project directory_entry_files)) @
          [Printed (''Copying files from ''
             @ str_path (host_building (built_project directory_entry_files))
                 generated_files_dir
             @ '' to ''
             @ str_path (host_building (built_project directory_entry_files))
                 output_dir)]\<rparr>)"
    by (simp add: copy_generated_files_def run_defs path_exists_def generated_files_dir_def
        temp_dir_def built_state_def built_project_def cloned_project_def output_dir_def
        directory_entry_files_def glob_sk_def listdir_def fnmatch_sk_def suffix_to_prefix
        copy2_def is_dir_def)
  finally show ?thesis
    by (simp add: generated_files_dir_def temp_dir_def built_project_def cloned_project_def
        output_dir_def directory_entry_files_def)
qed


text \<open>
  C1, as amended. Let a directory be at the path of the generated files, let every entry
  of it that is named \<^verbatim>\<open>*.sk\<close> be a regular file, let the fixture directory be there
  or makeable and hold no directory under one of those names. Then the copy succeeds; for
  every entry of the source named \<^verbatim>\<open>*.sk\<close> the fixture directory holds, under the
  same name, a file with the bytes and the metadata of the source; every other name in the
  fixture directory is as before (nothing else is copied, whatever its extension and however
  deep it lies in the source); the source is untouched; one line is printed per file and the
  number in the last line is the number of entries of the source named \<^verbatim>\<open>*.sk\<close>.
\<close>

theorem copy_generated_files_copies_sk_files:
  assumes "lookup (tree s) generated_files_dir = Some (Dir entries)"
    and "\<forall>n \<in> set (listdir entries). fnmatch_sk n \<longrightarrow>
           (\<exists>c m k. map_of entries n = Some (File c m k))"
    and "unobstructed (tree s) output_dir"
    and "\<forall>n \<in> set (listdir entries). fnmatch_sk n \<longrightarrow>
           \<not> is_dir (tree s) (output_dir @ [n])"
  shows "\<exists>s'. copy_generated_files w s = (Inr (), s') \<and>
           (\<forall>a. a \<in> set (listdir entries) \<and> fnmatch_sk a \<longrightarrow>
              lookup (tree s') (output_dir @ [a]) =
                lookup (tree s) (generated_files_dir @ [a]) \<and>
              (\<exists>c m k. lookup (tree s') (output_dir @ [a]) = Some (File c m k))) \<and>
           (\<forall>a. \<not> (a \<in> set (listdir entries) \<and> fnmatch_sk a) \<longrightarrow>
              lookup (tree s') (output_dir @ [a]) = lookup (tree s) (output_dir @ [a])) \<and>
           (\<forall>q. lookup (tree s') (generated_files_dir @ q) =
                  lookup (tree s) (generated_files_dir @ q)) \<and>
           events s' = events s @
             [Printed (''Copying files from '' @ str_path w generated_files_dir
                         @ '' to '' @ str_path w output_dir)] @
             map (\<lambda>n. Printed (''Copied: '' @ n)) (filter fnmatch_sk (listdir entries)) @
             [Printed (if filter fnmatch_sk (listdir entries) = []
                       then ''Warning: No .sk files were found to copy.''
                       else ''Successfully copied ''
                              @ py_str (length (filter fnmatch_sk (listdir entries)))
                              @ '' files.'')] \<and>
           length (filter fnmatch_sk (listdir entries)) =
             card {a \<in> fst ` set entries. fnmatch_sk a}"
proof -
  from copy_generated_files_copies [OF assms, of w] obtain s' where
    r: "copy_generated_files w s = (Inr (), s')"
    and e: "events s' = events s @
             [Printed (''Copying files from '' @ str_path w generated_files_dir
                         @ '' to '' @ str_path w output_dir)] @
             map (\<lambda>n. Printed (''Copied: '' @ n)) (filter fnmatch_sk (listdir entries)) @
             [Printed (if filter fnmatch_sk (listdir entries) = []
                       then ''Warning: No .sk files were found to copy.''
                       else ''Successfully copied ''
                              @ py_str (length (filter fnmatch_sk (listdir entries)))
                              @ '' files.'')]"
    and o: "\<forall>a. lookup (tree s') (output_dir @ [a]) =
                  (if a \<in> set (filter fnmatch_sk (listdir entries)) then map_of entries a
                   else lookup (tree s) (output_dir @ [a]))"
    and x: "\<forall>y q. y \<noteq> ''tests'' \<longrightarrow> lookup (tree s') (y # q) = lookup (tree s) (y # q)"
    by blast
  have 1: "lookup (tree s') (output_dir @ [a]) = lookup (tree s) (generated_files_dir @ [a]) \<and>
           (\<exists>c m k. lookup (tree s') (output_dir @ [a]) = Some (File c m k))"
    if "a \<in> set (listdir entries) \<and> fnmatch_sk a" for a
    using that o [rule_format, of a] assms(2)
    by (simp add: lookup_generated_entry [OF assms(1)])
  have 2: "lookup (tree s') (output_dir @ [a]) = lookup (tree s) (output_dir @ [a])"
    if "\<not> (a \<in> set (listdir entries) \<and> fnmatch_sk a)" for a
    using that o [rule_format, of a] by auto
  have 3: "lookup (tree s') (generated_files_dir @ q) =
           lookup (tree s) (generated_files_dir @ q)" for q
    unfolding generated_files_dir_Cons using x by (simp del: lookup.simps)
  have 4: "length (filter fnmatch_sk (listdir entries)) =
             card {a \<in> fst ` set entries. fnmatch_sk a}"
    using length_filter_remdups [of fnmatch_sk "map fst entries"] by (simp add: listdir_def)
  from r e 1 2 3 4 show ?thesis by blast
qed


lemma example_generated_files:
  "lookup (tree (built_state (built_project generated_files))) generated_files_dir =
     Some (Dir generated_files)"
  by (simp add: built_state_def built_project_def cloned_project_def
      generated_files_dir_def temp_dir_def)

lemma listdir_generated_files: "listdir generated_files = [''a.sk'', ''b.sk'', ''c.txt'']"
  by (simp add: listdir_def generated_files_def)

lemma fnmatch_sk_examples:
  "fnmatch_sk ''a.sk''" "fnmatch_sk ''b.sk''" "\<not> fnmatch_sk ''c.txt''"
  "\<not> fnmatch_sk ''keep.bin''"
  by (simp_all add: fnmatch_sk_def suffix_to_prefix)

theorem copy_generated_files_copies_sk_files_witness:
  "\<exists>s'. copy_generated_files example_world (built_state (built_project generated_files)) =
           (Inr (), s') \<and>
         lookup (tree s') (output_dir @ [''a.sk'']) = Some (File ''A'' 420 5) \<and>
         lookup (tree s') (output_dir @ [''b.sk'']) = Some (File ''B'' 420 6) \<and>
         lookup (tree s') (output_dir @ [''c.txt'']) = None \<and>
         last (events s') = Printed ''Successfully copied 2 files.''"
proof -
  let ?s = "built_state (built_project generated_files)"
  have 2: "\<forall>n \<in> set (listdir generated_files). fnmatch_sk n \<longrightarrow>
           (\<exists>c m k. map_of generated_files n = Some (File c m k))"
    by (simp add: listdir_generated_files fnmatch_sk_examples) (simp add: generated_files_def)
  have 3: "unobstructed (tree ?s) output_dir"
    by (simp add: built_state_def unobstructed_fresh)
  have 4: "\<forall>n \<in> set (listdir generated_files). fnmatch_sk n \<longrightarrow>
           \<not> is_dir (tree ?s) (output_dir @ [n])"
    by (simp add: listdir_generated_files built_state_def is_dir_def output_dir_def)
  from copy_generated_files_copies_sk_files [OF example_generated_files 2 3 4, of example_world]
  obtain s' where
    r: "copy_generated_files example_world ?s = (Inr (), s')"
    and c: "\<forall>a. a \<in> set (listdir generated_files) \<and> fnmatch_sk a \<longrightarrow>
              lookup (tree s') (output_dir @ [a]) =
                lookup (tree ?s) (generated_files_dir @ [a]) \<and>
              (\<exists>c m k. lookup (tree s') (output_dir @ [a]) = Some (File c m k))"
    and o: "\<forall>a. \<not> (a \<in> set (listdir generated_files) \<and> fnmatch_sk a) \<longrightarrow>
              lookup (tree s') (output_dir @ [a]) = lookup (tree ?s) (output_dir @ [a])"
    and e: "events s' = events ?s @
             [Printed (''Copying files from '' @ str_path example_world generated_files_dir
                         @ '' to '' @ str_path example_world output_dir)] @
             map (\<lambda>n. Printed (''Copied: '' @ n)) (filter fnmatch_sk (listdir generated_files)) @
             [Printed (if filter fnmatch_sk (listdir generated_files) = []
                       then ''Warning: No .sk files were found to copy.''
                       else ''Successfully copied ''
                              @ py_str (length (filter fnmatch_sk (listdir generated_files)))
                              @ '' files.'')]"
    by blast
  have src: "lookup (tree ?s) (generated_files_dir @ [a]) = map_of generated_files a" for a
    by (rule lookup_generated_entry [OF example_generated_files])
  have a: "lookup (tree s') (output_dir @ [''a.sk'']) = Some (File ''A'' 420 5)"
    using c [rule_format, of "''a.sk''"]
    by (simp add: listdir_generated_files fnmatch_sk_examples src del: lookup.simps)
      (simp add: generated_files_def)
  have b: "lookup (tree s') (output_dir @ [''b.sk'']) = Some (File ''B'' 420 6)"
    using c [rule_format, of "''b.sk''"]
    by (simp add: listdir_generated_files fnmatch_sk_examples src del: lookup.simps)
      (simp add: generated_files_def)
  have t: "lookup (tree s') (output_dir @ [''c.txt'']) = None"
    using o [rule_format, of "''c.txt''"]
    by (simp add: fnmatch_sk_examples del: lookup.simps)
      (simp add: built_state_def output_dir_def)
  have two: "py_str 2 = ''2''" by code_simp
  have l: "last (events s') = Printed ''Successfully copied 2 files.''"
    unfolding e using two
    by (simp add: listdir_generated_files fnmatch_sk_examples numeral_2_eq_2)
  from r a b t l show ?thesis by blast
qed

subsection \<open>What the copy leaves alone\<close>

lemma lookup_store_sibling:
  assumes "lookup es d = Some (Dir l)" and "a \<noteq> b"
  shows "lookup (store es (d @ [a]) n) (d @ b # q) = lookup es (d @ b # q)"
proof -
  have "lookup (store es (d @ [a]) n) (d @ b # q) = lookup (AList.update a n l) (b # q)"
    by (simp add: lookup_append [of _ d] lookup_store_parent [OF assms(1)] del: lookup.simps)
  also have "\<dots> = lookup l (b # q)"
    using assms(2) by (simp add: AList.update_conv')
  also have "\<dots> = lookup es (d @ b # q)"
    by (simp add: lookup_append [of _ d] assms(1) del: lookup.simps)
  finally show ?thesis .
qed

lemma copy2_stores:
  "is_dir t output_dir \<Longrightarrow> copy2 t (generated_files_dir @ [n]) output_dir = Inr t' \<Longrightarrow>
   \<exists>f. t' = store t (output_dir @ [n]) f"
  by (auto simp: copy2_def Let_def split: if_splits option.splits node.splits)

lemma mkdir_parents_exist_ok_is_dir:
  "mkdir_parents_exist_ok es p = Inr es' \<Longrightarrow> is_dir es' p"
proof (induction p arbitrary: es es')
  case Nil
  then show ?case by (simp add: is_dir_def)
next
  case (Cons x p)
  show ?case
  proof (cases "map_of es x")
    case None
    obtain l where l: "mkdir_parents_exist_ok [] p = Inr l" "lookup l p = Some (Dir [])"
      using mkdir_parents_exist_ok_empty by blast
    with None Cons.prems show ?thesis by (auto simp: is_dir_def AList.update_conv')
  next
    case (Some n)
    show ?thesis
    proof (cases n)
      case (File c m t)
      with Some Cons.prems show ?thesis by simp
    next
      case (Dir l)
      with Some Cons.prems obtain l' where
        l': "mkdir_parents_exist_ok l p = Inr l'" "es' = AList.update x (Dir l') es"
        by (auto split: sum.splits)
      from Cons.IH [OF l'(1)] l'(2) show ?thesis
        by (simp add: is_dir_def AList.update_conv')
    qed
  qed
qed

lemma copy_loop_frame:
  assumes "is_dir (tree s) output_dir"
  shows "is_dir (tree (snd (copy_loop (map (\<lambda>n. generated_files_dir @ [n]) names) j s)))
           output_dir \<and>
         (\<forall>y q. y \<noteq> ''tests'' \<longrightarrow>
            lookup (tree (snd (copy_loop (map (\<lambda>n. generated_files_dir @ [n]) names) j s)))
              (y # q) = lookup (tree s) (y # q)) \<and>
         (\<forall>a q. a \<notin> set names \<longrightarrow>
            lookup (tree (snd (copy_loop (map (\<lambda>n. generated_files_dir @ [n]) names) j s)))
              (output_dir @ a # q) = lookup (tree s) (output_dir @ a # q))"
  using assms
proof (induction names arbitrary: s j)
  case Nil
  then show ?case by (simp add: return_def)
next
  case (Cons n names)
  show ?case
  proof (cases "copy2 (tree s) (generated_files_dir @ [n]) output_dir")
    case (Inl e)
    then have "copy_loop (map (\<lambda>n. generated_files_dir @ [n]) (n # names)) j s =
        (Inl (Uncaught e), s)"
      by (simp add: run_defs)
    with Cons.prems show ?thesis by simp
  next
    case (Inr t')
    from copy2_stores [OF Cons.prems Inr] obtain f where
      t': "t' = store (tree s) (output_dir @ [n]) f" by blast
    from Cons.prems obtain l where l: "lookup (tree s) output_dir = Some (Dir l)"
      by (auto simp: is_dir_def split: option.splits node.splits)
    let ?s1 = "s\<lparr>tree := t', events := events s @ [Printed (''Copied: '' @ n)]\<rparr>"
    have step: "copy_loop (map (\<lambda>n. generated_files_dir @ [n]) (n # names)) j s =
        copy_loop (map (\<lambda>n. generated_files_dir @ [n]) names) (j + 1) ?s1"
      using Inr by (simp add: run_defs)
    have d1: "is_dir (tree ?s1) output_dir"
      by (simp add: t' is_dir_def lookup_store_parent [OF l])
    have fr: "lookup (tree ?s1) (y # q) = lookup (tree s) (y # q)" if "y \<noteq> ''tests''" for y q
      using that by (simp add: t' store_output_elsewhere del: lookup.simps)
    have sib: "lookup (tree ?s1) (output_dir @ a # q) = lookup (tree s) (output_dir @ a # q)"
      if "a \<noteq> n" for a q
      using that by (simp add: t' lookup_store_sibling [OF l] del: lookup.simps)
    from Cons.IH [OF d1, of "j + 1"] fr sib show ?thesis
      unfolding step by (simp del: lookup.simps)
  qed
qed

lemma glob_sk_names:
  "\<exists>names. glob_sk t generated_files_dir = map (\<lambda>n. generated_files_dir @ [n]) names"
  by (auto simp: glob_sk_def split: option.splits node.splits)

lemma copy_generated_files_frame:
  "(\<forall>y q. y \<noteq> ''tests'' \<longrightarrow>
      lookup (tree (snd (copy_generated_files w s))) (y # q) = lookup (tree s) (y # q)) \<and>
   (\<forall>a q. a \<notin> last ` set (glob_sk (tree s) generated_files_dir) \<longrightarrow>
      lookup (tree (snd (copy_generated_files w s))) (output_dir @ a # q) =
      lookup (tree s) (output_dir @ a # q))"
proof (cases "path_exists (tree s) generated_files_dir")
  case False
  then show ?thesis by (simp add: copy_generated_files_def run_defs)
next
  case True
  let ?copying = "Printed (''Copying files from '' @ str_path w generated_files_dir
                         @ '' to '' @ str_path w output_dir)"
  show ?thesis
  proof (cases "mkdir_parents_exist_ok (tree s) output_dir")
    case (Inl e)
    with True show ?thesis by (simp add: copy_generated_files_def run_defs)
  next
    case (Inr t1)
    let ?s1 = "s\<lparr>events := events s @ [?copying], tree := t1\<rparr>"
    obtain names where
      g: "glob_sk (tree s) generated_files_dir = map (\<lambda>n. generated_files_dir @ [n]) names"
      using glob_sk_names by blast
    have fr1: "lookup t1 (y # q) = lookup (tree s) (y # q)" if "y \<noteq> ''tests''" for y q
      using Inr that unfolding output_dir_Cons
      by (rule mkdir_parents_exist_ok_elsewhere [OF _ not_sym])
    have "lookup t1 generated_files_dir = lookup (tree s) generated_files_dir"
      unfolding generated_files_dir_Cons by (simp add: fr1 del: lookup.simps)
    then have g1: "glob_sk t1 generated_files_dir = map (\<lambda>n. generated_files_dir @ [n]) names"
      using g by (simp add: glob_sk_def)
    have names: "last ` set (glob_sk (tree s) generated_files_dir) = set names"
      unfolding g by (simp add: image_image)
    have out1: "lookup t1 (output_dir @ a # q) = lookup (tree s) (output_dir @ a # q)" for a q
      by (rule mkdir_parents_exist_ok_entries [OF Inr]) simp
    have d1: "is_dir (tree ?s1) output_dir"
      using mkdir_parents_exist_ok_is_dir [OF Inr] by simp
    let ?loop = "copy_loop (map (\<lambda>n. generated_files_dir @ [n]) names) 0 ?s1"
    have run: "tree (snd (copy_generated_files w s)) = tree (snd ?loop)"
      using True Inr g1
      by (simp add: copy_generated_files_def bind_def fs_query_def fs_op_def py_print_def
          split: prod.splits sum.splits)
    from copy_loop_frame [OF d1, of names 0] show ?thesis
      unfolding run names by (simp add: fr1 out1 del: lookup.simps)
  qed
qed






section \<open>After the run\<close>

lemma check_command_installed_tree:
  "tree (snd (check_command_installed w c s)) = tree s"
  by (simp add: check_command_installed_def run_defs)

lemma check_java_version_tree: "tree (snd (check_java_version w s)) = tree s"
  by (simp add: check_java_version_def java_version_error_def py_print_text_def run_defs Let_def
      split: sum.splits option.splits)

lemma bind_tree:
  assumes "\<And>s. tree (snd (m s)) = tree s" and "\<And>x s. tree (snd (f x s)) = tree s"
  shows "tree (snd (bind m f s)) = tree s"
proof (cases "m s")
  case (Pair r s1)
  then have "tree s1 = tree s" using assms(1) [of s] by simp
  with Pair assms(2) show ?thesis by (cases r) (simp_all add: bind_def)
qed

lemma check_prerequisites_tree: "tree (snd (check_prerequisites w s)) = tree s"
  unfolding check_prerequisites_def
  by (intro bind_tree check_command_installed_tree check_java_version_tree)

lemma lookup_below_is_dir:
  "lookup es (x # y # p) \<noteq> None \<Longrightarrow> is_dir es [x]"
  by (auto simp: is_dir_def split: option.splits node.splits)

text \<open>
  C9. When a run ends normally, its last step found the workspace as the build left it
  and the state at the end has every path of the workspace as it was then: the workspace
  is a directory and the directory of generated files is in it. Nothing of the workspace is
  touched by the check of the prerequisites of a later run; it is the reset of that run
  which prints that it removes the directory and leaves an empty one.
\<close>

theorem workspace_left_after_success:
  assumes "main w s0 = (Inr (), s')"
  shows "\<exists>s. before_copy w s0 = (Inr (), s) \<and>
           (\<forall>q. lookup (tree s') (temp_dir @ q) = lookup (tree s) (temp_dir @ q)) \<and>
           is_dir (tree s') temp_dir \<and>
           path_exists (tree s') generated_files_dir \<and>
           (\<forall>w2. tree (snd (check_prerequisites w2 s')) = tree s') \<and>
           (\<forall>w2 s1. tree s1 = tree s' \<longrightarrow>
              (\<exists>s2. setup_temporary_directory w2 s1 = (Inr (), s2) \<and>
                    lookup (tree s2) temp_dir = Some (Dir []) \<and>
                    events s2 = events s1 @
                      [Printed (''Removing existing temporary directory: ''
                                  @ str_path w2 temp_dir)]))"
proof -
  obtain r s where b: "before_copy w s0 = (r, s)" by (cases "before_copy w s0")
  have r: "r = Inr ()"
  proof (cases r)
    case (Inl a)
    with b assms show ?thesis by (simp add: main_before_copy bind_def)
  next
    case (Inr u)
    then show ?thesis by simp
  qed
  with b have b': "before_copy w s0 = (Inr (), s)" by simp
  have c: "copy_generated_files w s = (Inr (), s')"
    using main_reaches_copy [OF b'] assms by simp
  have fr: "lookup (tree s') (y # q) = lookup (tree s) (y # q)" if "y \<noteq> ''tests''" for y q
    using copy_generated_files_frame [of w s] c that by simp
  have 1: "lookup (tree s') (temp_dir @ q) = lookup (tree s) (temp_dir @ q)" for q
    by (simp add: temp_dir_def fr del: lookup.simps)
  have ex: "path_exists (tree s) generated_files_dir"
  proof (rule ccontr)
    assume "\<not> path_exists (tree s) generated_files_dir"
    then have "lookup (tree s) generated_files_dir = None" by (simp add: path_exists_def)
    from copy_generated_files_missing [OF this, of w] c show False by simp
  qed
  have ex': "path_exists (tree s') generated_files_dir"
    using ex 1 [of "[''serialization_test_data'', ''java_generated_files'']"]
    by (simp add: path_exists_def generated_files_dir_def del: lookup.simps)
  have d: "is_dir (tree s') temp_dir"
    unfolding temp_dir_def
    by (rule lookup_below_is_dir [of _ _ "''serialization_test_data''" "[''java_generated_files'']"])
      (use ex' in \<open>simp add: path_exists_def generated_files_dir_def temp_dir_def
         del: lookup.simps\<close>)
  have 2: "\<exists>s2. setup_temporary_directory w2 s1 = (Inr (), s2) \<and>
                    lookup (tree s2) temp_dir = Some (Dir []) \<and>
                    events s2 = events s1 @
                      [Printed (''Removing existing temporary directory: ''
                                  @ str_path w2 temp_dir)]"
    if "tree s1 = tree s'" for w2 s1
  proof -
    from that d have "is_dir (tree s1) temp_dir" by simp
    from setup_present [OF this, of w2] show ?thesis
      by (simp add: temp_dir_def AList.update_conv')
  qed
  from b' 1 d ex' check_prerequisites_tree 2 show ?thesis by blast
qed

lemma example_run:
  "\<exists>s'. main (host_building (built_project generated_files)) empty_state = (Inr (), s')"
proof -
  let ?s = "built_state (built_project generated_files)"
  have 2: "\<forall>n \<in> set (listdir generated_files). fnmatch_sk n \<longrightarrow>
           (\<exists>c m k. map_of generated_files n = Some (File c m k))"
    by (simp add: listdir_generated_files fnmatch_sk_examples) (simp add: generated_files_def)
  have 3: "unobstructed (tree ?s) output_dir"
    by (simp add: built_state_def unobstructed_fresh)
  have 4: "\<forall>n \<in> set (listdir generated_files). fnmatch_sk n \<longrightarrow>
           \<not> is_dir (tree ?s) (output_dir @ [n])"
    by (simp add: listdir_generated_files built_state_def is_dir_def output_dir_def)
  from copy_generated_files_copies [OF example_generated_files 2 3 4]
  show ?thesis
    unfolding main_reaches_copy [OF example_before_copy] by blast
qed

theorem workspace_left_after_success_witness:
  "\<exists>s' s2.
     main (host_building (built_project generated_files)) empty_state = (Inr (), s') \<and>
     lookup (tree s') (temp_dir @ [''pom.xml'']) = Some (File ''<project/>'' 420 1) \<and>
     lookup (tree s') (generated_files_dir @ [''c.txt'']) = Some (File ''C'' 420 7) \<and>
     is_dir (tree s') temp_dir \<and>
     setup_temporary_directory example_world s' = (Inr (), s2) \<and>
     lookup (tree s2) temp_dir = Some (Dir [])"
proof -
  let ?w = "host_building (built_project generated_files)"
  from example_run obtain s' where m: "main ?w empty_state = (Inr (), s')" by blast
  from workspace_left_after_success [OF m] obtain s where
    b: "before_copy ?w empty_state = (Inr (), s)"
    and k: "\<forall>q. lookup (tree s') (temp_dir @ q) = lookup (tree s) (temp_dir @ q)"
    and d: "is_dir (tree s') temp_dir"
    and n: "\<forall>w2 s1. tree s1 = tree s' \<longrightarrow>
              (\<exists>s2. setup_temporary_directory w2 s1 = (Inr (), s2) \<and>
                    lookup (tree s2) temp_dir = Some (Dir []) \<and>
                    events s2 = events s1 @
                      [Printed (''Removing existing temporary directory: ''
                                  @ str_path w2 temp_dir)])"
    by blast
  from b have s: "s = built_state (built_project generated_files)"
    by (simp add: example_before_copy)
  have 1: "lookup (tree s') (temp_dir @ [''pom.xml'']) = Some (File ''<project/>'' 420 1)"
    unfolding k [rule_format] s
    by (simp add: built_state_def built_project_def cloned_project_def temp_dir_def)
  have "lookup (tree s')
      (temp_dir @ [''serialization_test_data'', ''java_generated_files'', ''c.txt'']) =
      Some (File ''C'' 420 7)"
    unfolding k [rule_format] s
    by (simp add: built_state_def built_project_def cloned_project_def temp_dir_def
        generated_files_def)
  then have 2: "lookup (tree s') (generated_files_dir @ [''c.txt'']) = Some (File ''C'' 420 7)"
    by (simp add: generated_files_dir_def del: lookup.simps)
  from n [rule_format, of s' example_world] obtain s2 where
    "setup_temporary_directory example_world s' = (Inr (), s2)"
    "lookup (tree s2) temp_dir = Some (Dir [])"
    by blast
  with m 1 2 d show ?thesis by blast
qed

section \<open>The exit status\<close>

lemma aborts_with_1_basic:
  "aborts_with_1 (return x)" "aborts_with_1 (py_print line)" "aborts_with_1 (sys_exit 1)"
  "aborts_with_1 (fs_op f)" "aborts_with_1 (fs_query g)"
  by (auto simp: aborts_with_1_def run_defs exit_code_def split: sum.splits)

lemma aborts_with_1_bind:
  assumes "aborts_with_1 m" and "\<And>x. aborts_with_1 (f x)"
  shows "aborts_with_1 (bind m f)"
  unfolding aborts_with_1_def
proof (intro allI impI)
  fix s a
  assume a: "fst (bind m f s) = Inl a"
  obtain r s1 where m: "m s = (r, s1)" by (cases "m s")
  show "exit_code (Inl a) = 1"
  proof (cases r)
    case (Inl b)
    with m a have "fst (m s) = Inl a" by (simp add: bind_def)
    with assms(1) show ?thesis by (simp add: aborts_with_1_def)
  next
    case (Inr x)
    with m a have "fst (f x s1) = Inl a" by (simp add: bind_def)
    with assms(2) [of x] show ?thesis by (simp add: aborts_with_1_def)
  qed
qed

lemma aborts_with_1_if:
  "aborts_with_1 m \<Longrightarrow> aborts_with_1 m' \<Longrightarrow> aborts_with_1 (if b then m else m')"
  by simp

lemma aborts_with_1_check_command_installed: "aborts_with_1 (check_command_installed w c)"
  unfolding check_command_installed_def
  by (intro aborts_with_1_if aborts_with_1_bind aborts_with_1_basic)

lemma aborts_with_1_check_java_version: "aborts_with_1 (check_java_version w)"
  by (auto simp: aborts_with_1_def check_java_version_def java_version_error_def
      py_print_text_def run_defs exit_code_def Let_def
      split: sum.splits option.splits if_splits)

lemma aborts_with_1_run_command: "aborts_with_1 (run_command w command cwd)"
  by (auto simp: aborts_with_1_def run_command_def run_defs exit_code_def Let_def
      split: child.splits if_splits)

lemma aborts_with_1_copy_loop: "aborts_with_1 (copy_loop files j)"
proof (induction files arbitrary: j)
  case Nil
  then show ?case by (simp add: aborts_with_1_basic)
next
  case (Cons f files)
  show ?case
    unfolding copy_loop.simps
    by (intro aborts_with_1_bind aborts_with_1_basic Cons.IH)
qed

lemma aborts_with_1_main: "aborts_with_1 (main w)"
  unfolding main_def check_prerequisites_def setup_temporary_directory_def
    clone_repository_def run_maven_def copy_generated_files_def
  by (intro aborts_with_1_bind aborts_with_1_if aborts_with_1_basic
      aborts_with_1_check_command_installed aborts_with_1_check_java_version
      aborts_with_1_run_command aborts_with_1_copy_loop)

lemma main_exit_code_cases:
  "(exit_code (fst (main w s)) = 0) = (fst (main w s) = Inr ())"
  "fst (main w s) \<noteq> Inr () \<Longrightarrow> exit_code (fst (main w s)) = 1"
proof -
  have a: "exit_code (Inl a) = 1" if "fst (main w s) = Inl a" for a
    using aborts_with_1_main [of w] that by (simp add: aborts_with_1_def)
  show "(exit_code (fst (main w s)) = 0) = (fst (main w s) = Inr ())"
  proof (cases "fst (main w s)")
    case (Inl b)
    with a [of b] show ?thesis by simp
  next
    case (Inr u)
    then show ?thesis by (simp add: exit_code_def)
  qed
  show "exit_code (fst (main w s)) = 1" if "fst (main w s) \<noteq> Inr ()"
  proof (cases "fst (main w s)")
    case (Inl b)
    with a [of b] show ?thesis by simp
  next
    case (Inr u)
    with that show ?thesis by simp
  qed
qed

lemma main_stops_in_prerequisites:
  assumes "fst (check_prerequisites w s) = Inl a"
  shows "fst (main w s) = Inl a"
proof -
  obtain s1 where "check_prerequisites w s = (Inl a, s1)"
    using assms by (cases "check_prerequisites w s") simp
  then show ?thesis by (simp add: main_def bind_def)
qed

lemma main_missing_tool:
  assumes "c \<in> set required_tools" and "which w c = None"
  shows "fst (main w s) = Inl (SysExit 1)"
proof -
  from assms obtain c' where "find (\<lambda>c. which w c = None) required_tools = Some c'"
    by (cases "find (\<lambda>c. which w c = None) required_tools") (auto simp: find_None_iff)
  from check_prerequisites_missing [OF this, of s] show ?thesis
    by (intro main_stops_in_prerequisites) simp
qed

lemma check_java_version_rejected:
  assumes "(\<exists>e. subprocess_run w [''java'', ''-version''] = Inl e) \<or>
           (\<exists>r. subprocess_run w [''java'', ''-version''] = Inr r \<and>
                \<not> (\<exists>ds. re_search_version (unicode_decimal w) (stderr r) = Some ds \<and>
                      py_int w ds = Inr 25))"
  shows "fst (check_java_version w s) = Inl (SysExit 1)"
  using assms
proof (elim disjE exE conjE)
  fix e
  assume "subprocess_run w [''java'', ''-version''] = Inl e"
  then show ?thesis by (simp add: check_java_version_raised)
next
  fix r
  assume r: "subprocess_run w [''java'', ''-version''] = Inr r"
    and n: "\<not> (\<exists>ds. re_search_version (unicode_decimal w) (stderr r) = Some ds \<and>
                      py_int w ds = Inr 25)"
  show ?thesis
  proof (cases "re_search_version (unicode_decimal w) (stderr r)")
    case None
    then show ?thesis by (simp add: check_java_version_unparsed [OF r])
  next
    case (Some ds)
    show ?thesis
    proof (cases "py_int w ds")
      case (Inl e)
      then show ?thesis by (simp add: check_java_version_int_raised [OF r Some])
    next
      case (Inr v)
      with n Some have "v \<noteq> 25" by simp
      with Inr show ?thesis by (simp add: check_java_version_other [OF r Some])
    qed
  qed
qed

lemma main_java_rejected:
  assumes "(\<exists>e. subprocess_run w [''java'', ''-version''] = Inl e) \<or>
           (\<exists>r. subprocess_run w [''java'', ''-version''] = Inr r \<and>
                \<not> (\<exists>ds. re_search_version (unicode_decimal w) (stderr r) = Some ds \<and>
                      py_int w ds = Inr 25))"
  shows "fst (main w s) = Inl (SysExit 1)"
proof (cases "\<forall>c \<in> set required_tools. which w c \<noteq> None")
  case True
  show ?thesis
    by (rule main_stops_in_prerequisites)
      (simp add: check_prerequisites_installed [OF True] check_java_version_rejected [OF assms])
next
  case False
  then obtain c where "c \<in> set required_tools" "which w c = None" by blast
  then show ?thesis by (rule main_missing_tool)
qed

lemma main_clone_failed:
  assumes "before_clone w s0 = (Inr (), s)"
    and "check_call w (clone_command w) None (tree s) = Exited rc t" and "rc \<noteq> 0"
  shows "main w s0 =
    (Inl (SysExit 1),
     \<lparr>tree = t,
      events = events s @ [Printed (''Running: '' @ join_spaces (clone_command w)),
                           Invoked (clone_command w) None,
                           Printed (''Error running command: ''
                                      @ str_called_process_error w (clone_command w) rc)]\<rparr>)"
  using assms(1) run_command_failed [OF assms(2,3)]
  by (simp add: main_before_clone bind_def clone_repository_def)

lemma main_build_failed:
  assumes "before_build w s0 = (Inr (), s)"
    and "check_call w (mvn_cmd w) (Some temp_dir) (tree s) = Exited rc t" and "rc \<noteq> 0"
  shows "main w s0 =
    (Inl (SysExit 1),
     \<lparr>tree = t,
      events = events s @ [Printed (''Running: '' @ join_spaces (mvn_cmd w)),
                           Invoked (mvn_cmd w) (Some temp_dir),
                           Printed (''Error running command: ''
                                      @ str_called_process_error w (mvn_cmd w) rc)]\<rparr>)"
  using assms(1) run_command_failed [OF assms(2,3)]
  by (simp add: main_before_build bind_def run_maven_def)

text \<open>
  C4. The exit status of a run is 0 exactly when the run ends normally, and 1 otherwise.
  It is 1 in each of these cases: a required tool is not on the search path; the version
  command raises, or its error text has no token, or the token does not read as 25; the
  clone, reached after successful steps, exits with a status other than 0; the build does;
  the build succeeds and nothing is at the path of the generated files. When the clone or
  the build fails, the run ends right there: after the invocation it prints the diagnostic
  and exits, so the command is not invoked a second time and nothing is invoked after it.
\<close>

theorem main_exit_code:
  "(exit_code (fst (main w s0)) = 0) = (fst (main w s0) = Inr ()) \<and>
   (fst (main w s0) \<noteq> Inr () \<longrightarrow> exit_code (fst (main w s0)) = 1) \<and>
   (\<forall>c. c \<in> set required_tools \<and> which w c = None \<longrightarrow>
      exit_code (fst (main w s0)) = 1) \<and>
   (\<forall>e. subprocess_run w [''java'', ''-version''] = Inl e \<longrightarrow>
      exit_code (fst (main w s0)) = 1) \<and>
   (\<forall>r. subprocess_run w [''java'', ''-version''] = Inr r \<and>
        \<not> (\<exists>ds. re_search_version (unicode_decimal w) (stderr r) = Some ds \<and>
                      py_int w ds = Inr 25) \<longrightarrow>
      exit_code (fst (main w s0)) = 1) \<and>
   (\<forall>s rc t. before_clone w s0 = (Inr (), s) \<and>
        check_call w (clone_command w) None (tree s) = Exited rc t \<and> rc \<noteq> 0 \<longrightarrow>
      exit_code (fst (main w s0)) = 1 \<and>
      snd (main w s0) =
        \<lparr>tree = t,
         events = events s @
           [Printed (''Running: '' @ join_spaces (clone_command w)),
            Invoked (clone_command w) None,
            Printed (''Error running command: ''
                       @ str_called_process_error w (clone_command w) rc)]\<rparr>) \<and>
   (\<forall>s rc t. before_build w s0 = (Inr (), s) \<and>
        check_call w (mvn_cmd w) (Some temp_dir) (tree s) = Exited rc t \<and> rc \<noteq> 0 \<longrightarrow>
      exit_code (fst (main w s0)) = 1 \<and>
      snd (main w s0) =
        \<lparr>tree = t,
         events = events s @
           [Printed (''Running: '' @ join_spaces (mvn_cmd w)),
            Invoked (mvn_cmd w) (Some temp_dir),
            Printed (''Error running command: ''
                       @ str_called_process_error w (mvn_cmd w) rc)]\<rparr>) \<and>
   (\<forall>s. before_copy w s0 = (Inr (), s) \<and> lookup (tree s) generated_files_dir = None \<longrightarrow>
      exit_code (fst (main w s0)) = 1 \<and>
      snd (main w s0) =
        s\<lparr>events := events s @
           [Printed (''Error: Expected generated files directory not found at ''
                       @ str_path w generated_files_dir)]\<rparr>)"
proof (intro conjI allI impI)
  show "(exit_code (fst (main w s0)) = 0) = (fst (main w s0) = Inr ())"
    by (rule main_exit_code_cases)
next
  assume "fst (main w s0) \<noteq> Inr ()"
  then show "exit_code (fst (main w s0)) = 1" by (rule main_exit_code_cases)
next
  fix c
  assume "c \<in> set required_tools \<and> which w c = None"
  then have "fst (main w s0) = Inl (SysExit 1)" by (auto intro: main_missing_tool)
  then show "exit_code (fst (main w s0)) = 1" by (simp add: exit_code_def)
next
  fix e
  assume "subprocess_run w [''java'', ''-version''] = Inl e"
  then have "fst (main w s0) = Inl (SysExit 1)" by (intro main_java_rejected) blast
  then show "exit_code (fst (main w s0)) = 1" by (simp add: exit_code_def)
next
  fix r
  assume "subprocess_run w [''java'', ''-version''] = Inr r \<and>
        \<not> (\<exists>ds. re_search_version (unicode_decimal w) (stderr r) = Some ds \<and>
                      py_int w ds = Inr 25)"
  then have "fst (main w s0) = Inl (SysExit 1)" by (intro main_java_rejected) blast
  then show "exit_code (fst (main w s0)) = 1" by (simp add: exit_code_def)
next
  fix s rc t
  assume a: "before_clone w s0 = (Inr (), s) \<and>
        check_call w (clone_command w) None (tree s) = Exited rc t \<and> rc \<noteq> 0"
  then have m: "main w s0 =
    (Inl (SysExit 1),
     \<lparr>tree = t,
      events = events s @ [Printed (''Running: '' @ join_spaces (clone_command w)),
                           Invoked (clone_command w) None,
                           Printed (''Error running command: ''
                                      @ str_called_process_error w (clone_command w) rc)]\<rparr>)"
    by (intro main_clone_failed) simp_all
  from m show "exit_code (fst (main w s0)) = 1" by (simp add: exit_code_def)
  from m show "snd (main w s0) =
        \<lparr>tree = t,
         events = events s @
           [Printed (''Running: '' @ join_spaces (clone_command w)),
            Invoked (clone_command w) None,
            Printed (''Error running command: ''
                       @ str_called_process_error w (clone_command w) rc)]\<rparr>"
    by simp
next
  fix s rc t
  assume a: "before_build w s0 = (Inr (), s) \<and>
        check_call w (mvn_cmd w) (Some temp_dir) (tree s) = Exited rc t \<and> rc \<noteq> 0"
  then have m: "main w s0 =
    (Inl (SysExit 1),
     \<lparr>tree = t,
      events = events s @ [Printed (''Running: '' @ join_spaces (mvn_cmd w)),
                           Invoked (mvn_cmd w) (Some temp_dir),
                           Printed (''Error running command: ''
                                      @ str_called_process_error w (mvn_cmd w) rc)]\<rparr>)"
    by (intro main_build_failed) simp_all
  from m show "exit_code (fst (main w s0)) = 1" by (simp add: exit_code_def)
  from m show "snd (main w s0) =
        \<lparr>tree = t,
         events = events s @
           [Printed (''Running: '' @ join_spaces (mvn_cmd w)),
            Invoked (mvn_cmd w) (Some temp_dir),
            Printed (''Error running command: ''
                       @ str_called_process_error w (mvn_cmd w) rc)]\<rparr>"
    by simp
next
  fix s
  assume a: "before_copy w s0 = (Inr (), s) \<and> lookup (tree s) generated_files_dir = None"
  then have m: "main w s0 =
      (Inl (SysExit 1),
       s\<lparr>events := events s @
          [Printed (''Error: Expected generated files directory not found at ''
                      @ str_path w generated_files_dir)]\<rparr>)"
    by (simp add: main_reaches_copy copy_generated_files_missing)
  from m show "exit_code (fst (main w s0)) = 1" by (simp add: exit_code_def)
  from m show "snd (main w s0) =
        s\<lparr>events := events s @
           [Printed (''Error: Expected generated files directory not found at ''
                       @ str_path w generated_files_dir)]\<rparr>"
    by simp
qed


lemma prerequisites_as_example:
  assumes "which w = which example_world"
    and "subprocess_run w = subprocess_run example_world"
  shows "check_prerequisites w s =
     (Inr (), s\<lparr>events := events s @ [Invoked [''java'', ''-version''] None,
                                        Printed ''Found Java 25.'']\<rparr>)"
proof -
  have i: "\<forall>c \<in> set required_tools. which w c \<noteq> None"
    by (simp add: assms(1) example_world_def)
  have r: "subprocess_run w [''java'', ''-version''] =
      Inr \<lparr>returncode = 0, stdout = text_of [], stderr = text_of (java_banner ''25.0.1'')\<rparr>"
    by (simp add: assms(2) example_world_def java_reports_def)
  show ?thesis
    unfolding check_prerequisites_installed [OF i]
    by (rule check_java_version_25 [OF r _ py_int_versions(1)])
      (simp add: banner_versions del: re_search_version.simps)
qed

lemma failing_before_clone:
  "before_clone (example_world\<lparr>check_call := failing_child tool rc\<rparr>) empty_state =
     (Inr (), \<lparr>tree = [(''tmp_datasketches_java'', Dir [])],
               events = [Invoked [''java'', ''-version''] None,
                         Printed ''Found Java 25.'']\<rparr>)"
proof -
  let ?w = "example_world\<lparr>check_call := failing_child tool rc\<rparr>"
  let ?s1 = "\<lparr>tree = [], events = [Invoked [''java'', ''-version''] None,
                                     Printed ''Found Java 25.'']\<rparr>"
  have 1: "check_prerequisites ?w empty_state = (Inr (), ?s1)"
    by (simp add: prerequisites_as_example empty_state_def)
  have 2: "setup_temporary_directory ?w ?s1 =
      (Inr (), \<lparr>tree = [(''tmp_datasketches_java'', Dir [])],
               events = [Invoked [''java'', ''-version''] None,
                         Printed ''Found Java 25.'']\<rparr>)"
    by (simp add: setup_absent temp_dir_def)
  show ?thesis
    unfolding before_clone_def using 1 2 by (simp only: bind_def prod.case sum.case)
qed

lemma failing_build_before_build:
  "\<exists>s. before_build (example_world\<lparr>check_call := failing_child ''mvn'' rc\<rparr>) empty_state =
         (Inr (), s) \<and> tree s = [(''tmp_datasketches_java'', Dir cloned_project)]"
proof -
  let ?w = "example_world\<lparr>check_call := failing_child ''mvn'' rc\<rparr>"
  let ?s2 = "\<lparr>tree = [(''tmp_datasketches_java'', Dir [])],
               events = [Invoked [''java'', ''-version''] None,
                         Printed ''Found Java 25.'']\<rparr>"
  have c: "check_call ?w (clone_command ?w) None (tree ?s2) =
      Exited 0 [(''tmp_datasketches_java'', Dir cloned_project)]"
    by (simp add: clone_command_def failing_child_def example_child_def temp_dir_def)
  show ?thesis
    unfolding before_build_def
    using failing_before_clone [of "''mvn''" rc] run_command_succeeded [OF c]
    by (simp add: bind_def clone_repository_def)
qed

theorem main_exit_code_witness:
  "exit_code (fst (main (host_building (built_project generated_files)) empty_state)) = 0 \<and>
   exit_code (fst (main (example_world\<lparr>which := (\<lambda>c. if c = ''git'' then None else Some c)\<rparr>)
                empty_state)) = 1 \<and>
   exit_code (fst (main (example_world\<lparr>subprocess_run := (\<lambda>_. Inl ''No such file'')\<rparr>)
                empty_state)) = 1 \<and>
   exit_code (fst (main (example_world\<lparr>subprocess_run :=
                           java_reports 0 [] (java_banner ''21.0.2'')\<rparr>)
                empty_state)) = 1 \<and>
   exit_code (fst (main (example_world\<lparr>check_call := failing_child ''git'' 128\<rparr>)
                empty_state)) = 1 \<and>
   exit_code (fst (main (example_world\<lparr>check_call := failing_child ''mvn'' 1\<rparr>)
                empty_state)) = 1 \<and>
   exit_code (fst (main (host_building cloned_project) empty_state)) = 1"
proof -
  note T = main_exit_code
  note T1 = T [THEN conjunct1]
  note T3 = T [THEN conjunct2, THEN conjunct2, THEN conjunct1, rule_format]
  note T4 = T [THEN conjunct2, THEN conjunct2, THEN conjunct2, THEN conjunct1, rule_format]
  note T5 = T [THEN conjunct2, THEN conjunct2, THEN conjunct2, THEN conjunct2,
      THEN conjunct1, rule_format]
  note T6 = T [THEN conjunct2, THEN conjunct2, THEN conjunct2, THEN conjunct2,
      THEN conjunct2, THEN conjunct1, rule_format, THEN conjunct1]
  note T7 = T [THEN conjunct2, THEN conjunct2, THEN conjunct2, THEN conjunct2,
      THEN conjunct2, THEN conjunct2, THEN conjunct1, rule_format, THEN conjunct1]
  note T8 = T [THEN conjunct2, THEN conjunct2, THEN conjunct2, THEN conjunct2,
      THEN conjunct2, THEN conjunct2, THEN conjunct2, rule_format, THEN conjunct1]
  have 1: "exit_code (fst (main (host_building (built_project generated_files))
      empty_state)) = 0"
    using example_run unfolding T1 by auto
  have 2: "exit_code (fst (main
      (example_world\<lparr>which := (\<lambda>c. if c = ''git'' then None else Some c)\<rparr>) empty_state)) = 1"
    by (rule T3 [of "''git''"]) (simp add: required_tools_def)
  have 3: "exit_code (fst (main
      (example_world\<lparr>subprocess_run := (\<lambda>_. Inl ''No such file'')\<rparr>) empty_state)) = 1"
    by (rule T4 [of _ "''No such file''"]) simp
  have 4: "exit_code (fst (main
      (example_world\<lparr>subprocess_run := java_reports 0 [] (java_banner ''21.0.2'')\<rparr>)
      empty_state)) = 1"
    by (rule T5 [of _ "\<lparr>returncode = 0, stdout = text_of [],
                        stderr = text_of (java_banner ''21.0.2'')\<rparr>"])
      (simp add: java_reports_def banner_versions py_int_versions
        del: re_search_version.simps)
  have 5: "exit_code (fst (main (example_world\<lparr>check_call := failing_child ''git'' 128\<rparr>)
      empty_state)) = 1"
    by (rule T6 [of _ _ "\<lparr>tree = [(''tmp_datasketches_java'', Dir [])],
               events = [Invoked [''java'', ''-version''] None,
                         Printed ''Found Java 25.'']\<rparr>" 128
          "[(''tmp_datasketches_java'', Dir [])]"])
      (simp add: failing_before_clone clone_command_def failing_child_def)
  from failing_build_before_build [of 1] obtain s where
    s: "before_build (example_world\<lparr>check_call := failing_child ''mvn'' 1\<rparr>) empty_state =
         (Inr (), s)" "tree s = [(''tmp_datasketches_java'', Dir cloned_project)]"
    by blast
  have mv: "mvn_cmd (example_world\<lparr>check_call := failing_child ''mvn'' 1\<rparr>) =
      [''mvn'', ''test'', ''-P'', ''generate-java-files'']"
    by (simp add: mvn_cmd_def example_world_def)
  have cc: "check_call (example_world\<lparr>check_call := failing_child ''mvn'' 1\<rparr>)
      (mvn_cmd (example_world\<lparr>check_call := failing_child ''mvn'' 1\<rparr>)) (Some temp_dir)
      (tree s) = Exited 1 (tree s)"
    unfolding mv by (simp add: failing_child_def)
  have 6: "exit_code (fst (main (example_world\<lparr>check_call := failing_child ''mvn'' 1\<rparr>)
      empty_state)) = 1"
    by (rule T7 [of _ _ s 1 "tree s"]) (use s(1) cc in simp)
  have 7: "exit_code (fst (main (host_building cloned_project) empty_state)) = 1"
    by (rule T8 [of _ _ "built_state cloned_project"])
      (simp add: example_before_copy built_state_def cloned_project_def
        generated_files_dir_def temp_dir_def)
  from 1 2 3 4 5 6 7 show ?thesis by blast
qed

end
